theory Spec2Isabelle
  imports Complex_Main "HOL-Library.List_Lexorder" "HOL-Library.Char_ord"
begin

section \<open>JavaScript values\<close>

text \<open>JavaScript truthiness of a value that is a string or \<open>undefined\<close>/\<open>null\<close>
  (\<open>None\<close>): only the empty string and the missing value are falsy.\<close>

definition truthy :: "string option \<Rightarrow> bool" where
  "truthy v = (case v of None \<Rightarrow> False | Some s \<Rightarrow> s \<noteq> [])"

section \<open>The delivery queue (services/EmailQueueService.js, table \<open>email_queue\<close>)\<close>

text \<open>
  One row of the SQLite table \<open>email_queue\<close> (config/database.js):
  \<^verbatim>\<open>
  emailId TEXT PRIMARY KEY, inspectionId TEXT, recipientEmail TEXT NOT NULL,
  subject TEXT NOT NULL, body TEXT NOT NULL, status TEXT DEFAULT 'pending',
  createdAt TEXT DEFAULT CURRENT_TIMESTAMP, sentAt TEXT,
  retryCount INTEGER DEFAULT 0, error TEXT
  \<close>
  Text columns are strings; \<open>status\<close> is free text in the table and the code writes
  \<open>'pending'\<close>, \<open>'sent'\<close> and \<open>'failed'\<close> into it. Time stamps are the ISO-8601
  strings of \<open>new Date().toISOString()\<close>; SQLite compares them bytewise, which is the
  lexicographic order on \<open>string\<close>.
\<close>

record email =
  emailId :: string
  inspectionId :: "string option"
  recipientEmail :: string
  subject :: string
  body :: string
  status :: string
  createdAt :: string
  sentAt :: "string option"
  retryCount :: nat
  error :: "string option"

text \<open>
  Every method of the service starts with \<open>getDatabase()\<close> and runs a prepared
  statement; either may throw. A storage access is therefore a sum: \<open>Inl msg\<close> when the
  storage layer throws an error with message \<open>msg\<close>, \<open>Inr rows\<close> when it answers from
  the table contents \<open>rows\<close> (in insertion order).
\<close>

type_synonym database = "string + email list"

text \<open>
  \<open>LIMIT ?\<close> of SQLite with the bound that \<open>stmt.all(limit)\<close> binds. The bound
  must be a 64-bit integer: SQLite turns a real bound into an integer only when it lies
  strictly between \<open>-2^63\<close> and \<open>2^63\<close>, and otherwise the statement throws
  \<open>datatype mismatch\<close>. A negative bound means no bound.
\<close>

definition sql_limit :: "int \<Rightarrow> 'a list \<Rightarrow> string + 'a list" where
  "sql_limit n rows =
     (if n \<le> - (2 ^ 63) \<or> 2 ^ 63 \<le> n then Inl ''datatype mismatch''
      else if n < 0 then Inr rows
      else Inr (take (nat n) rows))"

text \<open>
  \<^verbatim>\<open>
  static async getPendingEmails(limit = 10) {
    try {
      const db = getDatabase();
      const stmt = db.prepare(`SELECT * FROM email_queue WHERE status = 'pending'
                               ORDER BY createdAt ASC LIMIT ?`);
      const emails = stmt.all(limit);
      return emails;
    } catch (error) { return []; }
  }
  \<close>
  The statement only reads. Rows with equal \<open>createdAt\<close> are kept in table order.
  Every error, of the storage layer and of the statement, ends in the \<open>catch\<close>.
\<close>

definition getPendingEmails :: "database \<Rightarrow> int \<Rightarrow> email list" where
  "getPendingEmails db limit =
     (case db of
        Inl err \<Rightarrow> []
      | Inr rows \<Rightarrow>
          (case sql_limit limit (sort_key createdAt (filter (\<lambda>e. status e = ''pending'') rows)) of
             Inl err \<Rightarrow> []
           | Inr emails \<Rightarrow> emails))"

text \<open>
  \<^verbatim>\<open>
  static async markSent(emailId) {
    try { ... UPDATE email_queue SET status = 'sent', sentAt = ? WHERE emailId = ?
          stmt.run(now, emailId);
    } catch (error) { throw error; }
  }
  \<close>
\<close>

definition markSent_rows :: "string \<Rightarrow> string \<Rightarrow> email list \<Rightarrow> email list" where
  "markSent_rows now eid rows =
     map (\<lambda>e. if emailId e = eid then e\<lparr>status := ''sent'', sentAt := Some now\<rparr> else e) rows"

definition markSent :: "database \<Rightarrow> string \<Rightarrow> string \<Rightarrow> database" where
  "markSent db now eid = (case db of Inl err \<Rightarrow> Inl err | Inr rows \<Rightarrow> Inr (markSent_rows now eid rows))"

text \<open>
  \<^verbatim>\<open>
  static async markFailed(emailId, errorMessage) {
    try { ... UPDATE email_queue
              SET status = 'failed', error = ?, retryCount = retryCount + 1
              WHERE emailId = ?
          stmt.run(errorMessage.substring(0, 255), emailId);
    } catch (error) { throw error; }
  }
  \<close>
\<close>

definition markFailed_rows :: "string \<Rightarrow> string \<Rightarrow> email list \<Rightarrow> email list" where
  "markFailed_rows eid errorMessage rows =
     map (\<lambda>e. if emailId e = eid
              then e\<lparr>status := ''failed'', error := Some (take 255 errorMessage),
                     retryCount := retryCount e + 1\<rparr>
              else e) rows"

definition markFailed :: "database \<Rightarrow> string \<Rightarrow> string \<Rightarrow> database" where
  "markFailed db eid errorMessage =
     (case db of Inl err \<Rightarrow> Inl err | Inr rows \<Rightarrow> Inr (markFailed_rows eid errorMessage rows))"

text \<open>
  \<^verbatim>\<open>
  static async getQueueStats() {
    try {
      ... SELECT COUNT(*) as count FROM email_queue WHERE status = 'pending' / 'sent' / 'failed'
      const stats = { pending: pending?.count || 0, sent: sent?.count || 0,
                      failed: failed?.count || 0, total: (sum of the three) };
      return stats;
    } catch (error) { return { pending: 0, sent: 0, failed: 0, total: 0 }; }
  }
  \<close>
\<close>

record queue_stats =
  pending :: nat
  sent :: nat
  failed :: nat
  total :: nat

definition count_status :: "string \<Rightarrow> email list \<Rightarrow> nat" where
  "count_status s rows = length (filter (\<lambda>e. status e = s) rows)"

definition getQueueStats :: "database \<Rightarrow> queue_stats" where
  "getQueueStats db =
     (case db of
        Inl err \<Rightarrow> \<lparr>pending = 0, sent = 0, failed = 0, total = 0\<rparr>
      | Inr rows \<Rightarrow>
          \<lparr>pending = count_status ''pending'' rows,
           sent = count_status ''sent'' rows,
           failed = count_status ''failed'' rows,
           total = count_status ''pending'' rows + count_status ''sent'' rows
                   + count_status ''failed'' rows\<rparr>)"

section \<open>The dispatcher (services/EmailService.js)\<close>

text \<open>
  The service object holds \<open>isConfigured\<close> and the nodemailer \<open>transporter\<close>
  (\<open>null\<close> until SMTP is configured). \<open>transporter.sendMail\<close> is the external mail
  channel: for the message built from a queue row it either resolves with a message id
  (\<open>Inr\<close>) or rejects with an error message (\<open>Inl\<close>). Calling it on a \<open>null\<close>
  transporter throws a TypeError inside the loop's \<open>try\<close>.
\<close>

record emailService =
  isConfigured :: bool
  transporter :: "(email \<Rightarrow> string + string) option"

text \<open>
  The constructor calls \<open>initializeTransporter\<close>, which reads the SMTP settings from
  the environment. The channel reports itself through \<open>isSmtpConfigured()\<close>, which
  returns \<open>isConfigured\<close>: false when a setting is missing and when creating the
  transport failed.
  \<^verbatim>\<open>
  initializeTransporter() {
    try {
      if (!process.env.SMTP_HOST || !process.env.SMTP_USER || !process.env.SMTP_PASSWORD) {
        this.isConfigured = false; return;
      }
      this.transporter = nodemailer.createTransport({ ... });
      this.isConfigured = true;
    } catch (error) { this.isConfigured = false; }
  }
  \<close>
  \<open>createTransport\<close> is the outcome of \<open>nodemailer.createTransport\<close>: the transport
  or the error it throws.
\<close>

definition initializeTransporter ::
  "string option \<Rightarrow> string option \<Rightarrow> string option \<Rightarrow> string + (email \<Rightarrow> string + string)
   \<Rightarrow> emailService" where
  "initializeTransporter smtp_host smtp_user smtp_password createTransport =
     (if \<not> truthy smtp_host \<or> \<not> truthy smtp_user \<or> \<not> truthy smtp_password
      then \<lparr>isConfigured = False, transporter = None\<rparr>
      else (case createTransport of
              Inl err \<Rightarrow> \<lparr>isConfigured = False, transporter = None\<rparr>
            | Inr send \<Rightarrow> \<lparr>isConfigured = True, transporter = Some send\<rparr>))"

definition sendMail :: "emailService \<Rightarrow> email \<Rightarrow> string + string" where
  "sendMail svc e =
     (case transporter svc of
        None \<Rightarrow> Inl ''Cannot read properties of null (reading 'sendMail')''
      | Some send \<Rightarrow> send e)"

record process_result =
  success :: bool
  sentCount :: nat
  failedCount :: nat

text \<open>
  The body of the \<open>for (const email of pendingEmails)\<close> loop, on the table contents.
  The rows iterated are the snapshot returned by \<open>getPendingEmails\<close>, so the test
  \<open>email.retryCount < 3\<close> reads the snapshot:
  \<^verbatim>\<open>
  try {
    const result = await this.transporter.sendMail(mailOptions);
    await EmailQueueService.markSent(email.emailId);
    sent++;
  } catch (error) {
    // Only retry up to 3 times
    if (email.retryCount < 3) {
      await EmailQueueService.markFailed(email.emailId, error.message);
      failed++;
    } else {
      await EmailQueueService.markFailed(email.emailId, 'Max retries exceeded');
      failed++;
    }
  }
  \<close>
  The storage is taken to be up for the whole run once the snapshot was read, so
  \<open>markSent\<close> and \<open>markFailed\<close> do not throw inside the loop.
\<close>

fun sendQueued :: "emailService \<Rightarrow> string \<Rightarrow> email list \<Rightarrow> email list \<times> nat \<times> nat
                   \<Rightarrow> email list \<times> nat \<times> nat" where
  "sendQueued svc now [] acc = acc"
| "sendQueued svc now (e # es) (rows, nsent, nfailed) =
     (case sendMail svc e of
        Inr messageId \<Rightarrow>
          sendQueued svc now es (markSent_rows now (emailId e) rows, nsent + 1, nfailed)
      | Inl message \<Rightarrow>
          (if retryCount e < 3
           then sendQueued svc now es (markFailed_rows (emailId e) message rows, nsent, nfailed + 1)
           else sendQueued svc now es
                  (markFailed_rows (emailId e) ''Max retries exceeded'' rows, nsent, nfailed + 1)))"

text \<open>
  \<^verbatim>\<open>
  async processQueuedEmails(limit = 5) {
    try {
      if (!this.isSmtpConfigured()) { return { success: false, sent: 0, failed: 0 }; }
      const pendingEmails = await EmailQueueService.getPendingEmails(limit);
      if (pendingEmails.length === 0) { return { success: true, sent: 0, failed: 0 }; }
      let sent = 0; let failed = 0;
      for (const email of pendingEmails) { ... }
      return { success: true, sent, failed };
    } catch (error) { return { success: false, sent: 0, failed: 0 }; }
  }
  \<close>
  The function returns the result object and the storage after the run.
\<close>

definition processQueuedEmails ::
  "emailService \<Rightarrow> string \<Rightarrow> database \<Rightarrow> int \<Rightarrow> process_result \<times> database" where
  "processQueuedEmails svc now db limit =
     (if \<not> isConfigured svc then (\<lparr>success = False, sentCount = 0, failedCount = 0\<rparr>, db)
      else
        (let pendingEmails = getPendingEmails db limit in
         if length pendingEmails = 0 then (\<lparr>success = True, sentCount = 0, failedCount = 0\<rparr>, db)
         else
           (case db of
              Inl err \<Rightarrow> (\<lparr>success = False, sentCount = 0, failedCount = 0\<rparr>, db)
            | Inr rows \<Rightarrow>
                (case sendQueued svc now pendingEmails (rows, 0, 0) of
                   (rows', nsent, nfailed) \<Rightarrow>
                     (\<lparr>success = True, sentCount = nsent, failedCount = nfailed\<rparr>, Inr rows')))))"

section \<open>The record store of the cloud backend (models/Inspection.js)\<close>

text \<open>
  A Mongoose document of the \<open>Inspection\<close> model. Dates are milliseconds since the
  epoch (\<open>Date.now()\<close>). Of the schema's paths the model keeps the ones the routes and
  the hooks read or write; the remaining ones (\<open>verifiedByName\<close>, \<open>date\<close>, \<open>time\<close>,
  \<open>printName\<close>, the two check boxes, the signature ids, \<open>recipientEmail\<close>, \<open>notes\<close>)
  are copied from the request and never inspected. The two paths whose names the queue's
  rows already use carry the prefix \<open>doc_\<close>. \<open>isNew\<close> is Mongoose's flag of a document
  that was never saved.
\<close>

type_synonym date = int

record inspectionPoint =
  point_id :: int
  title :: string
  description :: string
  checked :: bool

record auditEntry =
  action :: string
  timestamp :: date
  audit_status :: "string option"
  details :: "string option"

record inspection =
  doc_inspectionId :: string
  truckNumber :: string
  trailerNumber :: string
  sealNumber :: string
  inspectionPoints :: "inspectionPoint list"
  pdfStoragePath :: "string option"
  pdfPublicUrl :: "string option"
  completedAt :: "date option"
  doc_status :: string
  auditLog :: "auditEntry list"
  idempotencyKey :: "string option"
  isNew :: bool

text \<open>
  The request body as the handlers read it from \<open>req.validatedBody\<close>; \<open>None\<close> is a
  key that is absent (or \<open>null\<close>).
\<close>

record inspectionData =
  req_truckNumber :: string
  req_trailerNumber :: string
  req_sealNumber :: string
  req_inspectionPoints :: "inspectionPoint list"
  req_verifiedByName :: string
  req_date :: string
  req_time :: string
  req_printName :: string
  req_pdfData :: "string option"
  req_pdfFileName :: "string option"
  req_status :: "string option"

text \<open>
  Errors: an \<open>APIError\<close> thrown by a handler (message, status code), the 400 response
  of \<open>validateRequest\<close>, a Mongoose validation error, MongoDB's duplicate-key error
  (code 11000) of \<open>save()\<close>, and a JavaScript \<open>TypeError\<close> (answered with 500).
\<close>

datatype failure =
    APIError string nat
  | RequestValidationError string
  | MongooseValidationError string
  | DuplicateKeyError string
  | TypeError string

text \<open>
  The collaborators of one request: the clock, the value \<open>uuidv4()\<close> yields, and the
  storage service (config/supabase), whose calls resolve (\<open>Inr\<close>) or throw (\<open>Inl\<close>).
\<close>

record env =
  clock :: date
  uuid :: string
  uploadPDFToStorage :: "string \<Rightarrow> string \<Rightarrow> string + (string \<times> string)"
  deletePDFFromStorage :: "string \<Rightarrow> string + unit"

text \<open>The state the routes act on: the collection and the stored PDF paths.\<close>

record backend =
  docs :: "inspection list"
  blobs :: "string list"

subsection \<open>The schema: defaults, the save hook, the indexes\<close>

text \<open>
  The one call of the constructor in the repository, in the handler of \<open>POST\<close>:
  \<^verbatim>\<open>
  const inspection = new Inspection({ ...inspectionData, pdfStoragePath, pdfPublicUrl,
                                      idempotencyKey, status: 'submitted' });
  \<close>
  with the schema defaults
  \<^verbatim>\<open>
  inspectionId: { default: uuidv4, unique: true },   pdfStoragePath: { default: null },
  completedAt:  { type: Date, default: Date.now },   pdfPublicUrl: { default: null },
  status: { enum: ['draft', 'submitted', 'archived'], default: 'submitted' },
  idempotencyKey: { type: String, unique: true, sparse: true }
  \<close>
  The call passes the status \<open>submitted\<close> and neither \<open>completedAt\<close> nor
  \<open>inspectionId\<close> (the request schema has no such keys), so these two take their
  defaults.
\<close>

definition new_Inspection ::
  "env \<Rightarrow> inspectionData \<Rightarrow> string option \<Rightarrow> string option \<Rightarrow> string option \<Rightarrow> inspection" where
  "new_Inspection ev d path url key =
     \<lparr>doc_inspectionId = uuid ev,
      truckNumber = req_truckNumber d,
      trailerNumber = req_trailerNumber d,
      sealNumber = req_sealNumber d,
      inspectionPoints = req_inspectionPoints d,
      pdfStoragePath = path,
      pdfPublicUrl = url,
      completedAt = Some (clock ev),
      doc_status = ''submitted'',
      auditLog = [],
      idempotencyKey = key,
      isNew = True\<rparr>"

text \<open>
  \<^verbatim>\<open>
  inspectionSchema.pre('save', function (next) {
    const now = new Date();
    ...
    // Set completedAt timestamp when submitted
    if (this.status === 'submitted' && !this.completedAt) { this.completedAt = now; }
    if (!this.auditLog) { this.auditLog = []; }
    this.auditLog.push({ action: this.isNew ? 'created' : 'modified',
                         timestamp: now, status: this.status });
    next();
  });
  \<close>
  (The block on \<open>isModified('status')\<close> only declares a table and assigns nothing.)
\<close>

definition pre_save :: "date \<Rightarrow> inspection \<Rightarrow> inspection" where
  "pre_save now d =
     (let d1 = (if doc_status d = ''submitted'' \<and> completedAt d = None
                then d\<lparr>completedAt := Some now\<rparr> else d)
      in d1\<lparr>auditLog := auditLog d1 @
                [\<lparr>action = (if isNew d1 then ''created'' else ''modified''),
                  timestamp = now, audit_status = Some (doc_status d1), details = None\<rparr>]\<rparr>)"

definition status_enum :: "string list" where
  "status_enum = [''draft'', ''submitted'', ''archived'']"

text \<open>
  \<open>document.save()\<close>: the schema validation (the \<open>enum\<close> of \<open>status\<close>; the
  required paths are guaranteed by the request schema) and the hook, which does not touch
  \<open>status\<close>, then the write.
  A new document is inserted, and the unique indexes on \<open>inspectionId\<close> and (sparse:
  only documents that have the path) on \<open>idempotencyKey\<close> reject a duplicate. A
  document that was loaded from the collection replaces the stored one of its
  \<open>inspectionId\<close>; no handler changes an indexed path of a stored document.
\<close>

definition save :: "date \<Rightarrow> inspection \<Rightarrow> inspection list \<Rightarrow> failure + (inspection \<times> inspection list)" where
  "save now d0 coll =
     (let d = pre_save now d0 in
      if doc_status d \<notin> set status_enum
      then Inl (MongooseValidationError ''status is not a valid enum value'')
      else if isNew d then
        (if doc_inspectionId d \<in> set (map doc_inspectionId coll)
            \<or> (idempotencyKey d \<noteq> None \<and> idempotencyKey d \<in> set (map idempotencyKey coll))
         then Inl (DuplicateKeyError ''E11000 duplicate key error'')
         else (let s = d\<lparr>isNew := False\<rparr> in Inr (s, coll @ [s])))
      else Inr (d, map (\<lambda>x. if doc_inspectionId x = doc_inspectionId d then d else x) coll))"

text \<open>The sparse unique index on \<open>idempotencyKey\<close> as a property of a collection:
  no two documents that have a key have the same one.\<close>

definition unique_keys :: "inspection list \<Rightarrow> bool" where
  "unique_keys coll = distinct (filter (\<lambda>k. k \<noteq> None) (map idempotencyKey coll))"

subsection \<open>The routes (routes/inspections.js of the cloud backend)\<close>

text \<open>
  \<^verbatim>\<open>
  const validateStatusTransition = (currentStatus, newStatus) => {
    const validTransitions = { draft: ['submitted', 'archived'],
                               submitted: ['archived'], archived: [] };
    if (currentStatus === newStatus) { return true; }
    return validTransitions[currentStatus]?.includes(newStatus) || false;
  };
  \<close>
\<close>

text \<open>
  \<open>validTransitions[currentStatus]\<close> has three outcomes: the array of an own key, a
  member inherited from \<open>Object.prototype\<close> (a function, or the prototype itself for
  \<open>__proto__\<close>), or \<open>undefined\<close>. An inherited member has no \<open>includes\<close>, so
  calling it throws a TypeError; on \<open>undefined\<close> the optional chain yields
  \<open>undefined\<close> and the result is \<open>false\<close>.
\<close>

datatype property = Targets "string list" | PrototypeMember | Undefined

definition object_prototype_members :: "string list" where
  "object_prototype_members =
     [''constructor'', ''__defineGetter__'', ''__defineSetter__'', ''hasOwnProperty'',
      ''__lookupGetter__'', ''__lookupSetter__'', ''isPrototypeOf'', ''propertyIsEnumerable'',
      ''toString'', ''valueOf'', ''__proto__'', ''toLocaleString'']"

definition validTransitions :: "string \<Rightarrow> property" where
  "validTransitions s =
     (if s = ''draft'' then Targets [''submitted'', ''archived'']
      else if s = ''submitted'' then Targets [''archived'']
      else if s = ''archived'' then Targets []
      else if s \<in> set object_prototype_members then PrototypeMember
      else Undefined)"

definition validateStatusTransition :: "string \<Rightarrow> string \<Rightarrow> string + bool" where
  "validateStatusTransition currentStatus newStatus =
     (if currentStatus = newStatus then Inr True
      else (case validTransitions currentStatus of
              Targets targets \<Rightarrow> Inr (newStatus \<in> set targets)
            | PrototypeMember \<Rightarrow> Inl ''validTransitions[currentStatus]?.includes is not a function''
            | Undefined \<Rightarrow> Inr False))"

text \<open>
  \<^verbatim>\<open>
  const checkDuplicateSubmission = async (idempotencyKey) => {
    if (!idempotencyKey) { return null; }
    return await Inspection.findOne({ idempotencyKey });
  };
  \<close>
\<close>

definition checkDuplicateSubmission :: "string option \<Rightarrow> inspection list \<Rightarrow> inspection option" where
  "checkDuplicateSubmission key coll =
     (if \<not> truthy key then None else find (\<lambda>d. idempotencyKey d = key) coll)"

text \<open>
  The middleware \<open>validateRequest(inspectionSchema)\<close> (middleware/errorHandler.js):
  \<^verbatim>\<open>
  const { error, value } = schema.validate(req.body, { abortEarly: false, stripUnknown: true });
  if (error) { return res.status(400).json({ success: false, error: { ... } }); }
  req.validatedBody = value;
  next();
  \<close>
  and the schema (utils/validators.js), on the keys of \<open>inspectionData\<close>:
  \<^verbatim>\<open>
  truckNumber, trailerNumber, sealNumber, verifiedByName, printName:
      Joi.string().trim().required()
  date, time: Joi.string().required()
  inspectionPoints: Joi.array().items(Joi.object({ id: Joi.number().required(),
      title: Joi.string().required(), description: Joi.string().required(),
      checked: Joi.boolean().required() })).required()
  pdfData: Joi.string().optional().allow(null, '').max(52428800)
  pdfFileName: Joi.string().optional().allow(null, '')
  \<close>
  A Joi string does not accept the empty string; \<open>trim()\<close> removes the white space
  around the value before that test and hands the trimmed value on (strings are taken to
  be ASCII). The schema has no key \<open>status\<close>, so \<open>stripUnknown\<close> removes a
  \<open>status\<close> from every body. A body in which a required key is missing or has another
  type is not a value of \<open>inspectionData\<close>; the schema's optional keys that the record
  does not have are copied and never inspected.
\<close>

definition is_space :: "char \<Rightarrow> bool" where
  "is_space c = (c \<in> set [CHR 0x20, CHR 0x09, CHR 0x0A, CHR 0x0B, CHR 0x0C, CHR 0x0D])"

definition trim :: "string \<Rightarrow> string" where
  "trim s = rev (dropWhile is_space (rev (dropWhile is_space s)))"

definition valid_point :: "inspectionPoint \<Rightarrow> bool" where
  "valid_point p = (title p \<noteq> [] \<and> description p \<noteq> [])"

definition validateRequest :: "inspectionData \<Rightarrow> failure + inspectionData" where
  "validateRequest b =
     (if trim (req_truckNumber b) = [] \<or> trim (req_trailerNumber b) = []
         \<or> trim (req_sealNumber b) = [] \<or> trim (req_verifiedByName b) = []
         \<or> trim (req_printName b) = [] \<or> req_date b = [] \<or> req_time b = []
         \<or> \<not> list_all valid_point (req_inspectionPoints b)
         \<or> (case req_pdfData b of None \<Rightarrow> False | Some pdf \<Rightarrow> 52428800 < length pdf)
      then Inl (RequestValidationError ''Validation error'')
      else Inr (b\<lparr>req_truckNumber := trim (req_truckNumber b),
                   req_trailerNumber := trim (req_trailerNumber b),
                   req_sealNumber := trim (req_sealNumber b),
                   req_verifiedByName := trim (req_verifiedByName b),
                   req_printName := trim (req_printName b),
                   req_status := None\<rparr>))"

text \<open>The response of a handler: status code, the \<open>isDuplicate\<close> flag and the document
  whose fields the \<open>data\<close> object echoes.\<close>

record response =
  statusCode :: nat
  isDuplicate :: bool
  data :: inspection

text \<open>
  The handler of \<open>POST /api/inspections\<close>, given the validated body and the
  \<open>Idempotency-Key\<close> header:
  \<^verbatim>\<open>
  if (idempotencyKey) {
    const existingInspection = await checkDuplicateSubmission(idempotencyKey);
    if (existingInspection) { return res.status(200).json({ isDuplicate: true, ... }); }
  }
  let pdfStoragePath = null; let pdfPublicUrl = null;
  if (inspectionData.pdfData && inspectionData.pdfFileName) {
    try { const uploadResult = await uploadPDFToStorage(pdfFileName, buffer); ... }
    catch (error) { throw new APIError('Failed to upload PDF file', 500); }
  }
  const inspection = new Inspection({ ...inspectionData, pdfStoragePath, pdfPublicUrl,
                                      idempotencyKey, status: 'submitted' });
  const savedInspection = await inspection.save();
  res.status(201).json({ success: true, data: { ... } });
  \<close>
\<close>

definition create_inspection ::
  "env \<Rightarrow> string option \<Rightarrow> inspectionData \<Rightarrow> string option \<Rightarrow> string option \<Rightarrow> backend
   \<Rightarrow> (failure + response) \<times> backend" where
  "create_inspection ev key d path url st =
     (case save (clock ev) (new_Inspection ev d path url key) (docs st) of
        Inl err \<Rightarrow> (Inl err, st)
      | Inr (saved, coll) \<Rightarrow>
          (Inr \<lparr>statusCode = 201, isDuplicate = False, data = saved\<rparr>, st\<lparr>docs := coll\<rparr>))"

definition post_inspection ::
  "env \<Rightarrow> string option \<Rightarrow> inspectionData \<Rightarrow> backend \<Rightarrow> (failure + response) \<times> backend" where
  "post_inspection ev key d st =
     (case (if truthy key then checkDuplicateSubmission key (docs st) else None) of
        Some existingInspection \<Rightarrow>
          (Inr \<lparr>statusCode = 200, isDuplicate = True, data = existingInspection\<rparr>, st)
      | None \<Rightarrow>
          (if truthy (req_pdfData d) \<and> truthy (req_pdfFileName d) then
             (case uploadPDFToStorage ev (the (req_pdfFileName d)) (the (req_pdfData d)) of
                Inl err \<Rightarrow> (Inl (APIError ''Failed to upload PDF file'' 500), st)
              | Inr (path, url) \<Rightarrow>
                  create_inspection ev key d (Some path) (Some url) (st\<lparr>blobs := blobs st @ [path]\<rparr>))
           else create_inspection ev key d None None st))"

text \<open>The whole route: the middleware, then the handler.\<close>

definition post_route ::
  "env \<Rightarrow> string option \<Rightarrow> inspectionData \<Rightarrow> backend \<Rightarrow> (failure + response) \<times> backend" where
  "post_route ev key b st =
     (case validateRequest b of
        Inl err \<Rightarrow> (Inl err, st)
      | Inr d \<Rightarrow> post_inspection ev key d st)"

text \<open>
  The handler of \<open>PUT /api/inspections/:id\<close>:
  \<^verbatim>\<open>
  const inspection = await Inspection.findOne({ inspectionId: req.params.id });
  if (!inspection) { throw new APIError('Inspection not found', 404); }
  if (inspectionData.status && inspectionData.status !== inspection.status) {
    if (!validateStatusTransition(inspection.status, inspectionData.status)) {
      throw new APIError(`Invalid status transition from '${inspection.status}' to
                          '${inspectionData.status}'`, 400);
    }
  }
  if (inspectionData.pdfData && inspectionData.pdfFileName) {
    try {
      if (inspection.pdfStoragePath) { await deletePDFFromStorage(inspection.pdfStoragePath); }
      const uploadResult = await uploadPDFToStorage(inspectionData.pdfFileName, buffer);
      inspectionData.pdfStoragePath = uploadResult.path;
      inspectionData.pdfPublicUrl = uploadResult.publicUrl;
      inspection.auditLog.push({ action: 'pdf_updated', timestamp: new Date(),
                                 details: `PDF updated: ${uploadResult.path}` });
    } catch (error) { throw new APIError('Failed to update PDF file', 500); }
  }
  Object.assign(inspection, inspectionData);
  const updatedInspection = await inspection.save();
  res.json({ success: true, data: { ... } });
  \<close>
\<close>

definition quoted :: "string \<Rightarrow> string" where
  "quoted s = [CHR 0x27] @ s @ [CHR 0x27]"

definition invalid_transition_message :: "string \<Rightarrow> string \<Rightarrow> string" where
  "invalid_transition_message src tgt =
     ''Invalid status transition from '' @ quoted src @ '' to '' @ quoted tgt"

text \<open>\<open>Object.assign(inspection, inspectionData)\<close>: every key the body has is copied.\<close>

definition assign_body :: "inspection \<Rightarrow> inspectionData \<Rightarrow> inspection" where
  "assign_body insp d =
     insp\<lparr>truckNumber := req_truckNumber d,
          trailerNumber := req_trailerNumber d,
          sealNumber := req_sealNumber d,
          inspectionPoints := req_inspectionPoints d,
          doc_status := (case req_status d of None \<Rightarrow> doc_status insp | Some s \<Rightarrow> s)\<rparr>"

text \<open>The PDF replacement: the document after it, or the error, and the blob store
  after the calls that were made.\<close>

definition update_pdf ::
  "env \<Rightarrow> inspectionData \<Rightarrow> inspection \<Rightarrow> string list \<Rightarrow> (failure + inspection) \<times> string list" where
  "update_pdf ev d insp bl =
     (if truthy (req_pdfData d) \<and> truthy (req_pdfFileName d) then
        (case (if truthy (pdfStoragePath insp)
               then deletePDFFromStorage ev (the (pdfStoragePath insp)) else Inr ()) of
           Inl err \<Rightarrow> (Inl (APIError ''Failed to update PDF file'' 500), bl)
         | Inr u \<Rightarrow>
             (let bl1 = (if truthy (pdfStoragePath insp)
                         then remove1 (the (pdfStoragePath insp)) bl else bl)
              in case uploadPDFToStorage ev (the (req_pdfFileName d)) (the (req_pdfData d)) of
                   Inl err \<Rightarrow> (Inl (APIError ''Failed to update PDF file'' 500), bl1)
                 | Inr (path, url) \<Rightarrow>
                     (Inr (insp\<lparr>pdfStoragePath := Some path, pdfPublicUrl := Some url,
                                auditLog := auditLog insp @
                                  [\<lparr>action = ''pdf_updated'', timestamp = clock ev,
                                    audit_status = None,
                                    details = Some (''PDF updated: '' @ path)\<rparr>]\<rparr>),
                      bl1 @ [path])))
      else (Inr insp, bl))"

text \<open>The handler after the status check: the PDF replacement, \<open>Object.assign\<close> and
  \<open>save()\<close>.\<close>

definition put_update ::
  "env \<Rightarrow> inspectionData \<Rightarrow> inspection \<Rightarrow> backend \<Rightarrow> (failure + response) \<times> backend" where
  "put_update ev d insp st =
     (case update_pdf ev d insp (blobs st) of
        (Inl err, bl) \<Rightarrow> (Inl err, st\<lparr>blobs := bl\<rparr>)
      | (Inr insp1, bl) \<Rightarrow>
          (case save (clock ev) (assign_body insp1 d) (docs st) of
             Inl err \<Rightarrow> (Inl err, st\<lparr>blobs := bl\<rparr>)
           | Inr (updated, coll) \<Rightarrow>
               (Inr \<lparr>statusCode = 200, isDuplicate = False, data = updated\<rparr>,
                \<lparr>docs = coll, blobs = bl\<rparr>)))"

definition put_inspection ::
  "env \<Rightarrow> string \<Rightarrow> inspectionData \<Rightarrow> backend \<Rightarrow> (failure + response) \<times> backend" where
  "put_inspection ev ident d st =
     (case find (\<lambda>x. doc_inspectionId x = ident) (docs st) of
        None \<Rightarrow> (Inl (APIError ''Inspection not found'' 404), st)
      | Some insp \<Rightarrow>
          (if truthy (req_status d) \<and> the (req_status d) \<noteq> doc_status insp
           then (case validateStatusTransition (doc_status insp) (the (req_status d)) of
                   Inl message \<Rightarrow> (Inl (TypeError message), st)
                 | Inr allowed \<Rightarrow>
                     (if \<not> allowed
                      then (Inl (APIError (invalid_transition_message (doc_status insp)
                                             (the (req_status d))) 400), st)
                      else put_update ev d insp st))
           else put_update ev d insp st))"

definition put_route ::
  "env \<Rightarrow> string \<Rightarrow> inspectionData \<Rightarrow> backend \<Rightarrow> (failure + response) \<times> backend" where
  "put_route ev ident b st =
     (case validateRequest b of
        Inl err \<Rightarrow> (Inl err, st)
      | Inr d \<Rightarrow> put_inspection ev ident d st)"

section \<open>The record store of the embedded backend (SQLite, routes/inspections.js)\<close>

text \<open>
  The embedded backend keeps the inspections and the queue in one SQLite database
  (config/database.js):
  \<^verbatim>\<open>
  db.pragma('foreign_keys = ON');
  CREATE TABLE IF NOT EXISTS inspections (inspectionId TEXT PRIMARY KEY, ...);
  CREATE TABLE IF NOT EXISTS email_queue (emailId TEXT PRIMARY KEY, inspectionId TEXT, ...,
    FOREIGN KEY(inspectionId) REFERENCES inspections(inspectionId));
  \<close>
  A row of \<open>inspections\<close> keeps the columns the routes below write; the field names
  carry the prefix \<open>row_\<close>. \<open>row_completionPercentage\<close> is \<open>None\<close> for SQL
  \<open>NULL\<close>.
\<close>

record inspection_row =
  row_inspectionId :: string
  row_truckNumber :: string
  row_inspectionPoints :: "inspectionPoint list"
  row_completionPercentage :: "int option"
  row_status :: string
  row_createdAt :: string
  row_updatedAt :: string

record tables =
  inspections :: "inspection_row list"
  email_queue :: "email list"

text \<open>
  The foreign key has no \<open>ON DELETE\<close> action, so SQLite's default \<open>NO ACTION\<close>
  applies: with enforcement on, a \<open>DELETE\<close> of a parent row that a child row still
  references fails with \<open>FOREIGN KEY constraint failed\<close> and changes nothing.
\<close>

definition references :: "string \<Rightarrow> email \<Rightarrow> bool" where
  "references ident e = (inspectionId e = Some ident)"

definition sql_delete_inspection :: "string \<Rightarrow> tables \<Rightarrow> string + tables" where
  "sql_delete_inspection ident t =
     (if list_ex (references ident) (email_queue t)
         \<and> list_ex (\<lambda>r. row_inspectionId r = ident) (inspections t)
      then Inl ''FOREIGN KEY constraint failed''
      else Inr (t\<lparr>inspections := filter (\<lambda>r. row_inspectionId r \<noteq> ident) (inspections t)\<rparr>))"

text \<open>
  \<^verbatim>\<open>
  router.delete('/:id', asyncHandler(async (req, res) => {
    const db = getDatabase();
    const inspection = getInspectionById(req.params.id);
    if (!inspection) { throw new APIError('Inspection not found', 404); }
    try {
      const stmt = db.prepare('DELETE FROM inspections WHERE inspectionId = ?');
      stmt.run(req.params.id);
      res.json({ success: true, message: `Inspection ${req.params.id} deleted successfully` });
    } catch (error) { throw new APIError('Failed to delete inspection', 500); }
  }));
  \<close>
  The handler runs no statement on \<open>email_queue\<close>.
\<close>

definition delete_inspection :: "string \<Rightarrow> tables \<Rightarrow> (failure + string) \<times> tables" where
  "delete_inspection ident t =
     (case find (\<lambda>r. row_inspectionId r = ident) (inspections t) of
        None \<Rightarrow> (Inl (APIError ''Inspection not found'' 404), t)
      | Some inspection \<Rightarrow>
          (case sql_delete_inspection ident t of
             Inl err \<Rightarrow> (Inl (APIError ''Failed to delete inspection'' 500), t)
           | Inr t' \<Rightarrow> (Inr (''Inspection '' @ ident @ '' deleted successfully''), t')))"

text \<open>The foreign key as a property of a database state: every job that names an
  inspection names one that exists.\<close>

definition foreign_key_ok :: "tables \<Rightarrow> bool" where
  "foreign_key_ok t =
     list_all (\<lambda>e. case inspectionId e of
                      None \<Rightarrow> True
                    | Some ident \<Rightarrow> list_ex (\<lambda>r. row_inspectionId r = ident) (inspections t))
              (email_queue t)"

text \<open>
  The cloud backend's \<open>DELETE /api/inspections/:id\<close> (it has no delivery queue):
  \<^verbatim>\<open>
  const inspection = await Inspection.findOne({ inspectionId: req.params.id });
  if (!inspection) { throw new APIError('Inspection not found', 404); }
  if (inspection.pdfStoragePath) {
    try { await deletePDFFromStorage(inspection.pdfStoragePath); }
    catch (error) { /* continue with inspection deletion even if PDF delete fails */ }
  }
  await Inspection.deleteOne({ inspectionId: req.params.id });
  \<close>
\<close>

fun deleteOne :: "('a \<Rightarrow> bool) \<Rightarrow> 'a list \<Rightarrow> 'a list" where
  "deleteOne P [] = []"
| "deleteOne P (x # xs) = (if P x then xs else x # deleteOne P xs)"

definition delete_route :: "env \<Rightarrow> string \<Rightarrow> backend \<Rightarrow> (failure + string) \<times> backend" where
  "delete_route ev ident st =
     (case find (\<lambda>x. doc_inspectionId x = ident) (docs st) of
        None \<Rightarrow> (Inl (APIError ''Inspection not found'' 404), st)
      | Some insp \<Rightarrow>
          (let bl = (if truthy (pdfStoragePath insp) then
                       (case deletePDFFromStorage ev (the (pdfStoragePath insp)) of
                          Inl err \<Rightarrow> blobs st
                        | Inr u \<Rightarrow> remove1 (the (pdfStoragePath insp)) (blobs st))
                     else blobs st)
           in (Inr (''Inspection '' @ ident @ '' deleted successfully''),
               \<lparr>docs = deleteOne (\<lambda>x. doc_inspectionId x = ident) (docs st), blobs = bl\<rparr>)))"

subsection \<open>Sequences of requests to the cloud backend\<close>






section \<open>The completion percentage\<close>

subsection \<open>JavaScript numbers\<close>

text \<open>
  A JavaScript number is an IEEE 754 double; a finite one is the real number it denotes.
  Division and multiplication return the exact result rounded to the nearest double, ties
  to the even significand. \<open>normalize\<close> scales a positive number into
  \<open>[2^52, 2^53)\<close>, where the doubles are the integers, and counts the binary exponent;
  \<open>fl\<close> rounds there and scales back. The model leaves out overflow and subnormal
  numbers: the numbers below are quotients of array lengths and their hundredfold.
\<close>

function normalize :: "real \<Rightarrow> int \<Rightarrow> real \<times> int" where
  "normalize x e =
     (if x \<le> 0 then (x, e)
      else if x < 2 ^ 52 then normalize (2 * x) (e - 1)
      else if 2 ^ 53 \<le> x then normalize (x / 2) (e + 1)
      else (x, e))"
  by pat_completeness auto
termination
proof (relation "measure (\<lambda>(x, e). if x \<le> 0 then 0
                                   else if x < 2 ^ 52 then nat \<lceil>2 ^ 53 / x\<rceil> + 1
                                   else if 2 ^ 53 \<le> x then nat \<lfloor>x\<rfloor> + 1 else 0)",
       goal_cases)
  case 1
  then show ?case by simp
next
  case (2 x e)
  then have x: "0 < x" "x < 2 ^ 52" by simp_all
  have "\<lceil>2 ^ 53 / (2 * x)\<rceil> < \<lceil>2 ^ 53 / x\<rceil>" if "2 * x < 2 ^ 52"
  proof -
    have "2 ^ 53 / x > 2" using x by (simp add: field_simps)
    then have "2 ^ 53 / (2 * x) \<le> 2 ^ 53 / x - 1" by (simp add: field_simps)
    then have "\<lceil>2 ^ 53 / (2 * x)\<rceil> \<le> \<lceil>2 ^ 53 / x - 1\<rceil>" by (rule ceiling_mono)
    then show ?thesis by simp
  qed
  moreover have "0 < \<lceil>2 ^ 53 / x\<rceil>" using x by (simp add: field_simps)
  ultimately show ?case using x by (auto simp: not_le not_less)
next
  case (3 x e)
  then have x: "2 ^ 53 \<le> x" by simp
  have "\<lfloor>x / 2\<rfloor> < \<lfloor>x\<rfloor>"
  proof -
    have "x / 2 \<le> x - 1" using x by (simp add: field_simps)
    then have "\<lfloor>x / 2\<rfloor> \<le> \<lfloor>x - 1\<rfloor>" by (rule floor_mono)
    then show ?thesis by simp
  qed
  moreover have "0 < \<lfloor>x\<rfloor>" using x by (simp add: floor_less_iff not_less le_floor_iff)
  ultimately show ?case using x by (auto simp: not_le not_less)
qed

declare normalize.simps [simp del]

definition round_half_even :: "real \<Rightarrow> int" where
  "round_half_even q =
     (let f = \<lfloor>q\<rfloor>; r = q - of_int f
      in if r < 1 / 2 then f else if 1 / 2 < r then f + 1 else if even f then f else f + 1)"

definition fl :: "real \<Rightarrow> real" where
  "fl x = (if x = 0 then 0
           else (case normalize \<bar>x\<bar> 0 of
                   (m, e) \<Rightarrow> sgn x * of_int (round_half_even m) * 2 powi e))"

definition js_divide :: "real \<Rightarrow> real \<Rightarrow> real" where
  "js_divide a b = fl (a / b)"

definition js_times :: "real \<Rightarrow> real \<Rightarrow> real" where
  "js_times a b = fl (a * b)"

text \<open>\<open>Math.round\<close>: the nearest integer, a tie going up.\<close>

definition Math_round :: "real \<Rightarrow> int" where
  "Math_round x = \<lfloor>x + 1 / 2\<rfloor>"

subsection \<open>The two computations of the percentage\<close>

text \<open>
  Both backends compute
  \<open>Math.round((points.filter(p => p.checked).length / points.length) * 100)\<close>.
\<close>

definition rounded_percentage :: "inspectionPoint list \<Rightarrow> int" where
  "rounded_percentage points =
     Math_round (js_times (js_divide (of_nat (length (filter checked points)))
                                     (of_nat (length points))) 100)"

text \<open>
  The virtual of the cloud backend's model:
  \<^verbatim>\<open>
  inspectionSchema.virtual('completionPercentage').get(function () {
    if (this.inspectionPoints.length === 0) return 0;
    const checked = this.inspectionPoints.filter((p) => p.checked).length;
    return Math.round((checked / this.inspectionPoints.length) * 100);
  });
  \<close>
\<close>

definition completionPercentage :: "inspection \<Rightarrow> int" where
  "completionPercentage d =
     (if length (inspectionPoints d) = 0 then 0 else rounded_percentage (inspectionPoints d))"

text \<open>
  The embedded backend's \<open>POST /api/inspections\<close> computes the value without the guard
  and stores it in the row; for an empty list it is \<open>Math.round(0 / 0 * 100) = NaN\<close>,
  which SQLite stores as \<open>NULL\<close>:
  \<^verbatim>\<open>
  const inspectionId = `inspection_${uuidv4()}`;
  const now = new Date().toISOString();
  const completionPercentage = Math.round(
    (inspectionPoints.filter(p => p.checked).length / inspectionPoints.length) * 100);
  ... INSERT INTO inspections (...) VALUES (..., completionPercentage, 'draft', now, now)
  \<close>
\<close>

definition post_completionPercentage :: "inspectionPoint list \<Rightarrow> int option" where
  "post_completionPercentage points =
     (if length points = 0 then None else Some (rounded_percentage points))"

text \<open>
  \<open>PUT /api/inspections/:id\<close> of the embedded backend recomputes the value when the
  request has a checklist and keeps the stored one otherwise:
  \<^verbatim>\<open>
  const completionPercentage = inspectionPoints
    ? Math.round((inspectionPoints.filter(p => p.checked).length / inspectionPoints.length) * 100)
    : inspection.completionPercentage;
  \<close>
\<close>

definition put_completionPercentage :: "inspectionPoint list option \<Rightarrow> int option \<Rightarrow> int option" where
  "put_completionPercentage points stored =
     (case points of None \<Rightarrow> stored | Some ps \<Rightarrow> post_completionPercentage ps)"

section \<open>Sample states\<close>

text \<open>Concrete queue rows, services and requests on which the theorems below are
  evaluated.\<close>

definition job_a :: email where
  "job_a = \<lparr>emailId = ''e1'', inspectionId = Some ''inspection_1'',
     recipientEmail = ''ops@example.org'', subject = ''CTPAT Inspection Report - T1'',
     body = ''report'', status = ''pending'', createdAt = ''2024-05-02T08:00:00.000Z'',
     sentAt = None, retryCount = 0, error = None\<rparr>"

definition job_b :: email where
  "job_b = \<lparr>emailId = ''e2'', inspectionId = Some ''inspection_1'',
     recipientEmail = ''ops@example.org'', subject = ''CTPAT Inspection Report - T1'',
     body = ''report'', status = ''pending'', createdAt = ''2024-05-01T08:00:00.000Z'',
     sentAt = None, retryCount = 0, error = None\<rparr>"

definition job_sent :: email where
  "job_sent = \<lparr>emailId = ''e3'', inspectionId = Some ''inspection_1'',
     recipientEmail = ''ops@example.org'', subject = ''CTPAT Inspection Report - T1'',
     body = ''report'', status = ''sent'', createdAt = ''2024-04-30T08:00:00.000Z'',
     sentAt = Some ''2024-04-30T09:00:00.000Z'', retryCount = 0, error = None\<rparr>"

definition failing_service :: emailService where
  "failing_service = \<lparr>isConfigured = True, transporter = Some (\<lambda>e. Inl ''connect ETIMEDOUT'')\<rparr>"

text \<open>The service of a process that has no \<open>SMTP_HOST\<close>.\<close>

definition unconfigured_service :: emailService where
  "unconfigured_service =
     initializeTransporter None (Some ''mailer@example.org'') (Some ''secret'')
       (Inr (\<lambda>e. Inr ''message-id''))"

definition point :: "int \<Rightarrow> bool \<Rightarrow> inspectionPoint" where
  "point n c = \<lparr>point_id = n, title = ''Point'', description = ''Checked on site'', checked = c\<rparr>"

definition body_a :: inspectionData where
  "body_a = \<lparr>req_truckNumber = ''T-100'', req_trailerNumber = ''TR-7'', req_sealNumber = ''S-55'',
     req_inspectionPoints = [point 1 True, point 2 False],
     req_verifiedByName = ''A. Inspector'', req_date = ''2024-05-01'', req_time = ''07:00'',
     req_printName = ''A. Inspector'',
     req_pdfData = None, req_pdfFileName = None, req_status = None\<rparr>"

definition storage_up :: "string \<Rightarrow> string \<Rightarrow> string + (string \<times> string)" where
  "storage_up fileName buffer = Inr (''inspections/'' @ fileName, ''https://storage.example/'' @ fileName)"

definition env_a :: env where
  "env_a = \<lparr>clock = 1000, uuid = ''uuid-1'', uploadPDFToStorage = storage_up,
     deletePDFFromStorage = (\<lambda>p. Inr ())\<rparr>"

definition env_b :: env where
  "env_b = \<lparr>clock = 5000, uuid = ''uuid-2'', uploadPDFToStorage = storage_up,
     deletePDFFromStorage = (\<lambda>p. Inr ())\<rparr>"

definition empty_backend :: backend where
  "empty_backend = \<lparr>docs = [], blobs = []\<rparr>"

text \<open>The document that \<open>POST\<close> stores for \<open>body_a\<close> at time 1000, with and without an
  idempotency key.\<close>

definition doc_a :: "string option \<Rightarrow> inspection" where
  "doc_a key = \<lparr>doc_inspectionId = ''uuid-1'', truckNumber = ''T-100'', trailerNumber = ''TR-7'',
     sealNumber = ''S-55'', inspectionPoints = [point 1 True, point 2 False],
     pdfStoragePath = None, pdfPublicUrl = None, completedAt = Some 1000,
     doc_status = ''submitted'',
     auditLog = [\<lparr>action = ''created'', timestamp = 1000, audit_status = Some ''submitted'',
                  details = None\<rparr>],
     idempotencyKey = key, isNew = False\<rparr>"

definition body_b :: inspectionData where
  "body_b = body_a\<lparr>req_truckNumber := ''T-200'', req_inspectionPoints := [point 1 True, point 2 True]\<rparr>"

definition modified_at :: "date \<Rightarrow> inspection \<Rightarrow> inspection" where
  "modified_at now d = d\<lparr>auditLog := auditLog d @
     [\<lparr>action = ''modified'', timestamp = now, audit_status = Some (doc_status d), details = None\<rparr>]\<rparr>"

definition row_a :: inspection_row where
  "row_a = \<lparr>row_inspectionId = ''inspection_1'', row_truckNumber = ''T-100'',
     row_inspectionPoints = [point 1 True, point 2 False], row_completionPercentage = Some 50,
     row_status = ''draft'', row_createdAt = ''2024-05-01T07:00:00.000Z'',
     row_updatedAt = ''2024-05-01T07:00:00.000Z''\<rparr>"

definition row_b :: inspection_row where
  "row_b = row_a\<lparr>row_inspectionId := ''inspection_2'', row_truckNumber := ''T-200''\<rparr>"

text \<open>A checklist of 18 items, 9 of them checked, and one of 40 items, 23 checked.\<close>

definition checklist_18_9 :: "inspectionPoint list" where
  "checklist_18_9 = replicate 9 (point 1 True) @ replicate 9 (point 2 False)"

definition checklist_40_23 :: "inspectionPoint list" where
  "checklist_40_23 = replicate 23 (point 1 True) @ replicate 17 (point 2 False)"



section \<open>Storage failures in the queue's read operations\<close>

text \<open>
  C10. When the storage layer throws, \<open>getPendingEmails\<close> returns the empty list and
  \<open>getQueueStats\<close> returns all-zero counts, whatever the error and the limit: the error
  is not propagated, and both answers are the ones an empty queue gives.
\<close>

theorem read_operations_swallow_storage_errors:
  "getPendingEmails (Inl err) limit = []
   \<and> getPendingEmails (Inl err) limit = getPendingEmails (Inr []) limit
   \<and> getQueueStats (Inl err) = \<lparr>pending = 0, sent = 0, failed = 0, total = 0\<rparr>
   \<and> getQueueStats (Inl err) = getQueueStats (Inr [])"
  by (simp add: getPendingEmails_def getQueueStats_def sql_limit_def count_status_def)

section \<open>The dispatcher's short circuit\<close>

text \<open>
  C8. When the mail channel reports itself unconfigured or unavailable at the start of a
  run (\<open>isSmtpConfigured()\<close> is false: a setting is missing or the transport could
  not be created), \<open>processQueuedEmails\<close> returns zero sent and zero failed for every
  batch size, and the storage after the run is the storage before it: no job was
  selected, no status and no \<open>retryCount\<close> changed.
\<close>

theorem unconfigured_channel_short_circuits:
  assumes "\<not> isConfigured svc"
  shows "sentCount (fst (processQueuedEmails svc now db limit)) = 0
         \<and> failedCount (fst (processQueuedEmails svc now db limit)) = 0
         \<and> snd (processQueuedEmails svc now db limit) = db"
  using assms by (simp add: processQueuedEmails_def)

theorem unconfigured_channel_short_circuits_witness:
  "\<not> isConfigured unconfigured_service
   \<and> sentCount (fst (processQueuedEmails unconfigured_service ''2024-05-03T00:00:00.000Z'' (Inr [job_a, job_b]) 5)) = 0
   \<and> failedCount (fst (processQueuedEmails unconfigured_service ''2024-05-03T00:00:00.000Z'' (Inr [job_a, job_b]) 5)) = 0
   \<and> snd (processQueuedEmails unconfigured_service ''2024-05-03T00:00:00.000Z'' (Inr [job_a, job_b]) 5)
       = Inr [job_a, job_b]"
proof -
  have h: "\<not> isConfigured unconfigured_service"
    by (simp add: unconfigured_service_def initializeTransporter_def truthy_def)
  from unconfigured_channel_short_circuits[OF h] h show ?thesis
    by blast
qed

section \<open>Selection of pending jobs\<close>

text \<open>The three outcomes of the statement on a storage that answers.\<close>

lemma getPendingEmails_Inr:
  "getPendingEmails (Inr rows) limit =
     (if limit \<le> - (2 ^ 63) \<or> 2 ^ 63 \<le> limit then []
      else if limit < 0 then sort_key createdAt (filter (\<lambda>e. status e = ''pending'') rows)
      else take (nat limit) (sort_key createdAt (filter (\<lambda>e. status e = ''pending'') rows)))"
  by (simp add: getPendingEmails_def sql_limit_def)

lemma getPendingEmails_subset:
  "e \<in> set (getPendingEmails (Inr rows) limit) \<Longrightarrow> e \<in> set rows \<and> status e = ''pending''"
  by (auto simp: getPendingEmails_Inr dest: in_set_takeD split: if_splits)




text \<open>A negative bound inside the 64-bit range selects every pending job.\<close>

lemma getPendingEmails_negative_limit:
  "- (2 ^ 63) < limit \<Longrightarrow> limit < 0 \<Longrightarrow>
     getPendingEmails (Inr rows) limit
       = sort_key createdAt (filter (\<lambda>e. status e = ''pending'') rows)"
  by (simp add: getPendingEmails_Inr)





section \<open>Failed deliveries\<close>

text \<open>Whatever the retry count is, \<open>markFailed\<close> adds one to it and leaves the row
  of the given id in status \<open>failed\<close>.\<close>

lemma markFailed_rows_target:
  assumes "i < length rows" and "emailId (rows ! i) = eid"
  shows "status (markFailed_rows eid msg rows ! i) = ''failed''
         \<and> retryCount (markFailed_rows eid msg rows ! i) = retryCount (rows ! i) + 1"
  using assms by (simp add: markFailed_rows_def)

text \<open>
  C1, evaluated on the code. The first failed delivery of a fresh job (\<open>retryCount = 0\<close>,
  below the ceiling of 3) increments \<open>retryCount\<close> to 1 and sets the status to
  \<open>failed\<close>, not back to \<open>pending\<close>: \<open>markFailed\<close> writes \<open>failed\<close> whatever the
  count is, and the test \<open>email.retryCount < 3\<close> of the dispatcher only chooses the
  error text. The job is in no later batch, so it is never retried.
\<close>

theorem first_failure_is_already_terminal:
  "markFailed (Inr [job_a]) ''e1'' ''connect ETIMEDOUT''
     = Inr [job_a\<lparr>status := ''failed'', error := Some ''connect ETIMEDOUT'', retryCount := 1\<rparr>]
   \<and> getPendingEmails (markFailed (Inr [job_a]) ''e1'' ''connect ETIMEDOUT'') 10 = []
   \<and> processQueuedEmails failing_service ''2024-05-03T00:00:00.000Z'' (Inr [job_a]) 5
     = (\<lparr>success = True, sentCount = 0, failedCount = 1\<rparr>,
        Inr [job_a\<lparr>status := ''failed'', error := Some ''connect ETIMEDOUT'', retryCount := 1\<rparr>])
   \<and> fst (processQueuedEmails failing_service ''2024-05-03T00:05:00.000Z''
            (snd (processQueuedEmails failing_service ''2024-05-03T00:00:00.000Z'' (Inr [job_a]) 5)) 5)
     = \<lparr>success = True, sentCount = 0, failedCount = 0\<rparr>"
  by (simp add: markFailed_def markFailed_rows_def getPendingEmails_def sql_limit_def
                processQueuedEmails_def sendMail_def job_a_def failing_service_def)

section \<open>Jobs that are no longer pending\<close>

lemma markSent_rows_ids: "map emailId (markSent_rows now eid rows) = map emailId rows"
  by (induction rows) (auto simp: markSent_rows_def)

lemma markFailed_rows_ids: "map emailId (markFailed_rows eid msg rows) = map emailId rows"
  by (induction rows) (auto simp: markFailed_rows_def)

lemma markSent_rows_other:
  "i < length rows \<Longrightarrow> emailId (rows ! i) \<noteq> eid \<Longrightarrow> markSent_rows now eid rows ! i = rows ! i"
  by (simp add: markSent_rows_def)

lemma markFailed_rows_other:
  "i < length rows \<Longrightarrow> emailId (rows ! i) \<noteq> eid \<Longrightarrow> markFailed_rows eid msg rows ! i = rows ! i"
  by (simp add: markFailed_rows_def)

text \<open>One iteration of the loop keeps the invariant: the ids of the table are the same,
  and a row whose id is not among the processed jobs is as it was.\<close>

lemma sendQueued_step:
  assumes ih: "map emailId rows' = map emailId rows1
     \<and> (\<forall>i < length rows1. emailId (rows1 ! i) \<notin> emailId ` set es \<longrightarrow> rows' ! i = rows1 ! i)"
    and ids: "map emailId rows1 = map emailId rows"
    and other: "\<And>i. i < length rows \<Longrightarrow> emailId (rows ! i) \<noteq> emailId e \<Longrightarrow> rows1 ! i = rows ! i"
  shows "map emailId rows' = map emailId rows
     \<and> (\<forall>i < length rows. emailId (rows ! i) \<notin> emailId ` set (e # es) \<longrightarrow> rows' ! i = rows ! i)"
proof (intro conjI allI impI)
  show "map emailId rows' = map emailId rows" using ih ids by simp
next
  fix i assume i: "i < length rows" and n: "emailId (rows ! i) \<notin> emailId ` set (e # es)"
  have len: "length rows1 = length rows" using ids by (rule map_eq_imp_length_eq)
  from n have ne: "emailId (rows ! i) \<noteq> emailId e" and nes: "emailId (rows ! i) \<notin> emailId ` set es"
    by auto
  have r1: "rows1 ! i = rows ! i" using other[OF i ne] .
  with ih i len nes have "rows' ! i = rows1 ! i" by simp
  with r1 show "rows' ! i = rows ! i" by simp
qed

lemma sendQueued_untouched:
  "sendQueued svc now es (rows, a, b) = (rows', a', b') \<Longrightarrow>
     map emailId rows' = map emailId rows
     \<and> (\<forall>i < length rows. emailId (rows ! i) \<notin> emailId ` set es \<longrightarrow> rows' ! i = rows ! i)"
proof (induction es arbitrary: rows a b)
  case Nil
  then show ?case by simp
next
  case (Cons e es)
  show ?case
  proof (cases "sendMail svc e")
    case (Inr mid)
    with Cons.prems
    have step: "sendQueued svc now es (markSent_rows now (emailId e) rows, a + 1, b) = (rows', a', b')"
      by simp
    show ?thesis
      by (rule sendQueued_step[OF Cons.IH[OF step] markSent_rows_ids]) (rule markSent_rows_other)
  next
    case (Inl msg)
    let ?m = "if retryCount e < 3 then msg else ''Max retries exceeded''"
    from Inl Cons.prems
    have step: "sendQueued svc now es (markFailed_rows (emailId e) ?m rows, a, b + 1) = (rows', a', b')"
      by (simp split: if_splits)
    show ?thesis
      by (rule sendQueued_step[OF Cons.IH[OF step] markFailed_rows_ids]) (rule markFailed_rows_other)
  qed
qed

text \<open>
  C7, as stated, fails: \<open>markFailed\<close> (like \<open>markSent\<close>) updates the row of the given
  id whatever its status is, so a job that was marked sent is moved to \<open>failed\<close>.
\<close>

theorem markFailed_overwrites_sent:
  "status job_sent = ''sent''
   \<and> markFailed (Inr [job_sent]) ''e3'' ''550 mailbox unavailable''
     = Inr [job_sent\<lparr>status := ''failed'', error := Some ''550 mailbox unavailable'', retryCount := 1\<rparr>]
   \<and> markSent (markFailed (Inr [job_sent]) ''e3'' ''550 mailbox unavailable'') ''2024-05-03T00:00:00.000Z'' ''e3''
     = Inr [job_sent\<lparr>status := ''sent'', sentAt := Some ''2024-05-03T00:00:00.000Z'',
                     error := Some ''550 mailbox unavailable'', retryCount := 1\<rparr>]"
  by (simp add: markFailed_def markFailed_rows_def markSent_def markSent_rows_def job_sent_def)

text \<open>
  C7, amended. In a queue whose \<open>emailId\<close>s are unique (the primary key), a job whose
  status is anything but \<open>pending\<close>, in particular \<open>sent\<close> or \<open>failed\<close>, is never
  returned by \<open>getPendingEmails\<close>, and a dispatcher run \<open>processQueuedEmails\<close> leaves
  its row exactly as it was, whatever the mail channel does. (The guarantee is the
  dispatcher's: \<open>markSent\<close> and \<open>markFailed\<close> themselves do not look at the status.)
\<close>

theorem dispatcher_leaves_finished_jobs_alone:
  assumes d: "distinct (map emailId rows)" and i: "i < length rows"
    and np: "status (rows ! i) \<noteq> ''pending''"
  shows "rows ! i \<notin> set (getPendingEmails (Inr rows) limit)
         \<and> (\<exists>rows'. snd (processQueuedEmails svc now (Inr rows) limit) = Inr rows'
              \<and> length rows' = length rows \<and> rows' ! i = rows ! i)"
proof
  show "rows ! i \<notin> set (getPendingEmails (Inr rows) limit)"
    using np getPendingEmails_subset by blast
next
  let ?P = "getPendingEmails (Inr rows) limit"
  have notin: "emailId (rows ! i) \<notin> emailId ` set ?P"
  proof
    assume "emailId (rows ! i) \<in> emailId ` set ?P"
    then obtain e where e: "e \<in> set ?P" "emailId e = emailId (rows ! i)" by auto
    then have "e \<in> set rows" "status e = ''pending''" using getPendingEmails_subset by blast+
    then obtain j where j: "j < length rows" "rows ! j = e" by (auto simp: in_set_conv_nth)
    with e i d have "j = i" by (metis distinct_conv_nth length_map nth_map)
    with j \<open>status e = ''pending''\<close> np show False by simp
  qed
  obtain rows' a' b' where sq: "sendQueued svc now ?P (rows, 0, 0) = (rows', a', b')"
    by (metis prod_cases3)
  from sendQueued_untouched[OF sq] i notin
  have same: "length rows' = length rows" "rows' ! i = rows ! i"
    by (auto dest: map_eq_imp_length_eq)
  show "\<exists>rows'. snd (processQueuedEmails svc now (Inr rows) limit) = Inr rows'
              \<and> length rows' = length rows \<and> rows' ! i = rows ! i"
    using sq same by (auto simp: processQueuedEmails_def Let_def)
qed

theorem dispatcher_leaves_finished_jobs_alone_witness:
  "distinct (map emailId [job_sent, job_a]) \<and> (0::nat) < length [job_sent, job_a]
   \<and> status ([job_sent, job_a] ! 0) \<noteq> ''pending''
   \<and> [job_sent, job_a] ! 0 \<notin> set (getPendingEmails (Inr [job_sent, job_a]) 5)
   \<and> (\<exists>rows'. snd (processQueuedEmails failing_service ''2024-05-03T00:00:00.000Z''
                      (Inr [job_sent, job_a]) 5) = Inr rows'
        \<and> length rows' = length [job_sent, job_a] \<and> rows' ! 0 = [job_sent, job_a] ! 0)"
proof -
  have h1: "distinct (map emailId [job_sent, job_a])"
    by (simp add: job_sent_def job_a_def)
  have h2: "(0::nat) < length [job_sent, job_a]" by simp
  have h3: "status ([job_sent, job_a] ! 0) \<noteq> ''pending''"
    by (simp add: job_sent_def)
  from dispatcher_leaves_finished_jobs_alone[OF h1 h2 h3] h1 h2 h3 show ?thesis
    by blast
qed

section \<open>Idempotent submission\<close>

lemma pre_save_fields:
  "isNew (pre_save now d) = isNew d" "idempotencyKey (pre_save now d) = idempotencyKey d"
  "doc_status (pre_save now d) = doc_status d" "doc_inspectionId (pre_save now d) = doc_inspectionId d"
  by (simp_all add: pre_save_def Let_def)

lemma save_new:
  assumes "isNew d0" and "save now d0 coll = Inr (s, coll')"
  shows "coll' = coll @ [s] \<and> idempotencyKey s = idempotencyKey d0"
  using assms by (auto simp: save_def Let_def pre_save_fields split: if_splits)

text \<open>Under the unique index a key that is found is the key of exactly one document.\<close>

lemma count_key_unique:
  assumes "unique_keys coll" and "find (\<lambda>d. idempotencyKey d = Some k) coll = Some ex"
  shows "length (filter (\<lambda>d. idempotencyKey d = Some k) coll) = 1"
proof -
  let ?ks = "filter (\<lambda>k. k \<noteq> None) (map idempotencyKey coll)"
  have eq: "length (filter (\<lambda>d. idempotencyKey d = Some k) coll) = length (filter (\<lambda>x. x = Some k) ?ks)"
    by (induction coll) auto
  have "distinct ?ks" using assms(1) by (simp add: unique_keys_def)
  then have "length (filter (\<lambda>x. x = Some k) ?ks) = card ({x. x = Some k} \<inter> set ?ks)"
    by (rule distinct_length_filter)
  also have "\<dots> \<le> card {Some k}"
    by (intro card_mono) auto
  finally have le: "length (filter (\<lambda>d. idempotencyKey d = Some k) coll) \<le> 1"
    using eq by simp
  from assms(2) have "ex \<in> set coll" "idempotencyKey ex = Some k"
    by (auto simp: find_Some_iff)
  then have "filter (\<lambda>d. idempotencyKey d = Some k) coll \<noteq> []"
    by (auto simp: filter_empty_conv)
  then have "length (filter (\<lambda>d. idempotencyKey d = Some k) coll) \<ge> 1"
    by (cases "filter (\<lambda>d. idempotencyKey d = Some k) coll") auto
  with le show ?thesis by simp
qed

lemma find_append_None:
  "find P xs = None \<Longrightarrow> P s \<Longrightarrow> find P (xs @ [s]) = Some s"
  by (induction xs) (auto split: if_splits)

lemma create_inspection_result:
  assumes "create_inspection ev (Some k) d path url st = (Inr r, st1)"
    and "find (\<lambda>x. idempotencyKey x = Some k) (docs st) = None"
  shows "find (\<lambda>x. idempotencyKey x = Some k) (docs st1) = Some (data r)
         \<and> length (filter (\<lambda>x. idempotencyKey x = Some k) (docs st1)) = 1"
proof -
  from assms(1) obtain s coll where
    sv: "save (clock ev) (new_Inspection ev d path url (Some k)) (docs st) = Inr (s, coll)"
    and r: "r = \<lparr>statusCode = 201, isDuplicate = False, data = s\<rparr>" and st1: "st1 = st\<lparr>docs := coll\<rparr>"
    by (auto simp: create_inspection_def split: sum.splits)
  have "isNew (new_Inspection ev d path url (Some k))"
    by (simp add: new_Inspection_def)
  from save_new[OF this sv] have coll: "coll = docs st @ [s]" and key: "idempotencyKey s = Some k"
    by (simp_all add: new_Inspection_def)
  from assms(2) have "filter (\<lambda>x. idempotencyKey x = Some k) (docs st) = []"
    by (auto simp: find_None_iff filter_empty_conv)
  with coll key st1 r assms(2) show ?thesis
    by (simp add: find_append_None)
qed

text \<open>
  C3, as stated, fails for the empty key. The handler tests \<open>if (idempotencyKey)\<close>, and
  an empty \<open>Idempotency-Key\<close> header is falsy: the lookup is skipped, the first request
  stores a document whose \<open>idempotencyKey\<close> is the empty string, and the second request
  runs into the unique index: it is answered with the duplicate-key error of \<open>save()\<close>,
  not with the existing record and \<open>isDuplicate = true\<close>.
\<close>

theorem empty_key_is_not_deduplicated:
  "post_route env_a (Some []) body_a empty_backend
     = (Inr \<lparr>statusCode = 201, isDuplicate = False, data = doc_a (Some [])\<rparr>,
        \<lparr>docs = [doc_a (Some [])], blobs = []\<rparr>)
   \<and> post_route env_b (Some []) body_a \<lparr>docs = [doc_a (Some [])], blobs = []\<rparr>
     = (Inl (DuplicateKeyError ''E11000 duplicate key error''),
        \<lparr>docs = [doc_a (Some [])], blobs = []\<rparr>)"
  by (simp add: env_a_def env_b_def body_a_def empty_backend_def doc_a_def point_def
                post_route_def post_inspection_def create_inspection_def validateRequest_def
                trim_def is_space_def valid_point_def
                checkDuplicateSubmission_def truthy_def new_Inspection_def save_def pre_save_def
                status_enum_def Let_def)

text \<open>
  C3, amended. For every non-empty idempotency key \<open>k\<close> and any two payloads \<open>p1\<close> and
  \<open>p2\<close> (identical or different) that pass the request validation: once
  \<open>submit(k, p1)\<close> has returned a record \<open>r1\<close>, \<open>submit(k, p2)\<close> returns that same
  record with status 200 and \<open>isDuplicate = true\<close> and leaves the whole state as it was
  (no second record, no audit entry appended to any record, no upload; the handler
  enqueues no delivery job on any path), and exactly one stored record carries \<open>k\<close>. The
  two requests may see different clocks, uuids and storage services.
\<close>

theorem repeated_submission_returns_existing_record:
  assumes k: "k \<noteq> []"
    and first: "post_route ev1 (Some k) p1 st0 = (Inr r1, st1)"
    and valid: "validateRequest p2 = Inr d2"
    and uniq: "unique_keys (docs st0)"
  shows "post_route ev2 (Some k) p2 st1
           = (Inr \<lparr>statusCode = 200, isDuplicate = True, data = data r1\<rparr>, st1)
         \<and> length (filter (\<lambda>d. idempotencyKey d = Some k) (docs st1)) = 1"
proof -
  have tk: "truthy (Some k)" using k by (simp add: truthy_def)
  from first obtain d1 where first': "post_inspection ev1 (Some k) d1 st0 = (Inr r1, st1)"
    by (auto simp: post_route_def split: sum.splits)
  have found: "find (\<lambda>x. idempotencyKey x = Some k) (docs st1) = Some (data r1)
               \<and> length (filter (\<lambda>x. idempotencyKey x = Some k) (docs st1)) = 1"
  proof (cases "find (\<lambda>x. idempotencyKey x = Some k) (docs st0)")
    case (Some ex)
    with first' tk have "r1 = \<lparr>statusCode = 200, isDuplicate = True, data = ex\<rparr>" "st1 = st0"
      by (auto simp: post_inspection_def checkDuplicateSubmission_def)
    with Some count_key_unique[OF uniq Some] show ?thesis by simp
  next
    case None
    with first' tk obtain path url st' where
      cr: "create_inspection ev1 (Some k) d1 path url st' = (Inr r1, st1)" and "docs st' = docs st0"
      by (auto simp: post_inspection_def checkDuplicateSubmission_def split: if_splits sum.splits)
    with None create_inspection_result[OF cr] show ?thesis by simp
  qed
  then have "post_inspection ev2 (Some k) d2 st1
      = (Inr \<lparr>statusCode = 200, isDuplicate = True, data = data r1\<rparr>, st1)"
    using tk by (simp add: post_inspection_def checkDuplicateSubmission_def)
  with valid found show ?thesis by (simp add: post_route_def)
qed

theorem repeated_submission_returns_existing_record_witness:
  "''key-1'' \<noteq> []
   \<and> post_route env_a (Some ''key-1'') body_a empty_backend
       = (Inr \<lparr>statusCode = 201, isDuplicate = False, data = doc_a (Some ''key-1'')\<rparr>,
          \<lparr>docs = [doc_a (Some ''key-1'')], blobs = []\<rparr>)
   \<and> validateRequest body_b = Inr body_b
   \<and> unique_keys (docs empty_backend)
   \<and> post_route env_b (Some ''key-1'') body_b \<lparr>docs = [doc_a (Some ''key-1'')], blobs = []\<rparr>
       = (Inr \<lparr>statusCode = 200, isDuplicate = True, data = doc_a (Some ''key-1'')\<rparr>,
          \<lparr>docs = [doc_a (Some ''key-1'')], blobs = []\<rparr>)
   \<and> length (filter (\<lambda>d. idempotencyKey d = Some ''key-1'') [doc_a (Some ''key-1'')]) = 1"
proof -
  have h1: "''key-1'' \<noteq> []" by simp
  have h2: "post_route env_a (Some ''key-1'') body_a empty_backend
       = (Inr \<lparr>statusCode = 201, isDuplicate = False, data = doc_a (Some ''key-1'')\<rparr>,
          \<lparr>docs = [doc_a (Some ''key-1'')], blobs = []\<rparr>)"
    by (simp add: env_a_def body_a_def empty_backend_def doc_a_def point_def
                post_route_def post_inspection_def create_inspection_def validateRequest_def
                trim_def is_space_def valid_point_def
                checkDuplicateSubmission_def truthy_def new_Inspection_def save_def pre_save_def
                status_enum_def Let_def)
  have h3: "validateRequest body_b = Inr body_b"
    by (simp add: body_a_def body_b_def point_def validateRequest_def trim_def is_space_def
                  valid_point_def)
  have h4: "unique_keys (docs empty_backend)"
    by (simp add: unique_keys_def empty_backend_def)
  from repeated_submission_returns_existing_record[OF h1 h2 h3 h4, of env_b] h1 h2 h3 h4
  show ?thesis by simp
qed

section \<open>Status transitions\<close>

text \<open>On the statuses of the schema's enum the helper does not throw, and it accepts
  exactly the no-op and the three pairs of the table.\<close>

lemma validateStatusTransition_table:
  assumes "s \<in> set status_enum"
  shows "validateStatusTransition s t =
           Inr (s = t \<or> (s = ''draft'' \<and> t = ''submitted'') \<or> (s = ''draft'' \<and> t = ''archived'')
                      \<or> (s = ''submitted'' \<and> t = ''archived''))"
  using assms by (auto simp: validateStatusTransition_def validTransitions_def status_enum_def)

text \<open>The handler, given a body that still has a \<open>status\<close>, rejects a pair outside the
  table with the 400 error that names source and target, and writes nothing.\<close>

lemma put_inspection_rejects_invalid:
  assumes "find (\<lambda>x. doc_inspectionId x = ident) (docs st) = Some insp"
    and "req_status d = Some t" and "t \<noteq> []"
    and "validateStatusTransition (doc_status insp) t = Inr False"
  shows "put_inspection ev ident d st
           = (Inl (APIError (invalid_transition_message (doc_status insp) t) 400), st)"
proof -
  from assms(4) have "t \<noteq> doc_status insp"
    by (auto simp: validateStatusTransition_def)
  with assms show ?thesis
    by (simp add: put_inspection_def truthy_def)
qed

text \<open>The route never hands a \<open>status\<close> to the handler: its answer does not depend on
  the \<open>status\<close> key of the request.\<close>

lemma put_route_ignores_status:
  "put_route ev ident (b\<lparr>req_status := s\<rparr>) st = put_route ev ident (b\<lparr>req_status := None\<rparr>) st"
  by (simp add: put_route_def validateRequest_def)

text \<open>
  C4, evaluated on the code. A \<open>PUT\<close> that asks to move a submitted record to
  \<open>draft\<close>, a pair outside the table, is answered with 200 and the record stays
  \<open>submitted\<close>: \<open>validateRequest(inspectionSchema)\<close> strips the \<open>status\<close> key (the
  Joi schema does not have it), so the handler's check never sees a requested status.
  The handler itself, run on the body with its \<open>status\<close>, rejects the request with the
  error naming \<open>submitted\<close> and \<open>draft\<close>.
\<close>

theorem put_route_drops_requested_status:
  "validateStatusTransition ''submitted'' ''draft'' = Inr False
   \<and> put_route env_b ''uuid-1'' (body_a\<lparr>req_status := Some ''draft''\<rparr>)
        \<lparr>docs = [doc_a None], blobs = []\<rparr>
     = (Inr \<lparr>statusCode = 200, isDuplicate = False, data = modified_at 5000 (doc_a None)\<rparr>,
        \<lparr>docs = [modified_at 5000 (doc_a None)], blobs = []\<rparr>)
   \<and> doc_status (modified_at 5000 (doc_a None)) = ''submitted''
   \<and> put_inspection env_b ''uuid-1'' (body_a\<lparr>req_status := Some ''draft''\<rparr>)
        \<lparr>docs = [doc_a None], blobs = []\<rparr>
     = (Inl (APIError (invalid_transition_message ''submitted'' ''draft'') 400),
        \<lparr>docs = [doc_a None], blobs = []\<rparr>)"
  by (simp add: env_b_def body_a_def doc_a_def modified_at_def point_def
                put_route_def put_inspection_def put_update_def update_pdf_def assign_body_def
                validateRequest_def trim_def is_space_def valid_point_def
                truthy_def save_def pre_save_def status_enum_def
                validateStatusTransition_def validTransitions_def Let_def)

section \<open>The completion time stamp\<close>

lemma new_Inspection_completedAt:
  "completedAt (new_Inspection ev d path url key) = Some (clock ev)
   \<and> doc_status (new_Inspection ev d path url key) = ''submitted''"
  by (simp add: new_Inspection_def)

lemma pre_save_keeps_completedAt:
  "completedAt d \<noteq> None \<Longrightarrow> completedAt (pre_save now d) = completedAt d"
  by (simp add: pre_save_def Let_def)















section \<open>Deleting a record\<close>

lemma find_row_iff:
  "(find (\<lambda>r. row_inspectionId r = ident) rs = None) = (\<not> list_ex (\<lambda>r. row_inspectionId r = ident) rs)"
  by (auto simp: find_None_iff list_ex_iff)

lemma delete_inspection_queue: "email_queue (snd (delete_inspection ident t)) = email_queue t"
  by (auto simp: delete_inspection_def sql_delete_inspection_def split: option.splits sum.splits if_splits)

lemma delete_inspection_blocked:
  assumes "list_ex (references ident) (email_queue t)"
  shows "isl (fst (delete_inspection ident t)) \<and> snd (delete_inspection ident t) = t"
proof (cases "find (\<lambda>r. row_inspectionId r = ident) (inspections t)")
  case None
  then show ?thesis by (simp add: delete_inspection_def)
next
  case (Some r)
  then have "list_ex (\<lambda>r. row_inspectionId r = ident) (inspections t)"
    using find_row_iff[of ident "inspections t"] by simp
  with assms Some show ?thesis
    by (simp add: delete_inspection_def sql_delete_inspection_def)
qed

lemma delete_inspection_free:
  assumes "\<not> list_ex (references ident) (email_queue t)"
    and "list_ex (\<lambda>r. row_inspectionId r = ident) (inspections t)"
  shows "delete_inspection ident t =
           (Inr (''Inspection '' @ ident @ '' deleted successfully''),
            t\<lparr>inspections := filter (\<lambda>r. row_inspectionId r \<noteq> ident) (inspections t)\<rparr>)"
proof -
  from assms(2) obtain r where "find (\<lambda>r. row_inspectionId r = ident) (inspections t) = Some r"
    using find_row_iff[of ident "inspections t"]
    by (cases "find (\<lambda>r. row_inspectionId r = ident) (inspections t)") auto
  with assms(1) show ?thesis
    by (simp add: delete_inspection_def sql_delete_inspection_def)
qed

lemma delete_inspection_foreign_key:
  assumes "foreign_key_ok t"
  shows "foreign_key_ok (snd (delete_inspection ident t))"
proof (cases "\<not> list_ex (references ident) (email_queue t)
              \<and> list_ex (\<lambda>r. row_inspectionId r = ident) (inspections t)")
  case True
  then have eq: "snd (delete_inspection ident t)
                 = t\<lparr>inspections := filter (\<lambda>r. row_inspectionId r \<noteq> ident) (inspections t)\<rparr>"
    using delete_inspection_free by simp
  have "\<And>e i. e \<in> set (email_queue t) \<Longrightarrow> inspectionId e = Some i \<Longrightarrow>
            \<exists>r \<in> set (inspections t). row_inspectionId r = i \<and> row_inspectionId r \<noteq> ident"
  proof -
    fix e i assume e: "e \<in> set (email_queue t)" and i: "inspectionId e = Some i"
    from True e i have "i \<noteq> ident" by (auto simp: list_ex_iff references_def)
    moreover from assms e i have "\<exists>r \<in> set (inspections t). row_inspectionId r = i"
      by (auto simp: foreign_key_ok_def list_all_iff list_ex_iff split: option.splits)
    ultimately show "\<exists>r \<in> set (inspections t). row_inspectionId r = i \<and> row_inspectionId r \<noteq> ident"
      by auto
  qed
  then show ?thesis unfolding eq
    by (auto simp: foreign_key_ok_def list_all_iff list_ex_iff split: option.splits)
next
  case False
  then have "snd (delete_inspection ident t) = t"
  proof (cases "list_ex (references ident) (email_queue t)")
    case True
    then show ?thesis using delete_inspection_blocked by simp
  next
    case nref: False
    with False have "find (\<lambda>r. row_inspectionId r = ident) (inspections t) = None"
      using find_row_iff[of ident "inspections t"] by simp
    then show ?thesis by (simp add: delete_inspection_def)
  qed
  with assms show ?thesis by simp
qed

text \<open>The cloud backend's route removes one document of the given id and touches
  nothing else of the collection.\<close>

lemma deleteOne_length:
  "find P xs = Some x \<Longrightarrow> Suc (length (deleteOne P xs)) = length xs"
  by (induction xs) (auto split: if_splits)

lemma delete_route_removes_record:
  assumes "find (\<lambda>x. doc_inspectionId x = ident) (docs st) = Some insp"
  shows "\<not> isl (fst (delete_route ev ident st))
         \<and> Suc (length (docs (snd (delete_route ev ident st)))) = length (docs st)"
  using assms deleteOne_length[OF assms] by (simp add: delete_route_def Let_def)

text \<open>
  C6, as stated, fails. Deleting a record that two pending jobs reference removes neither
  the jobs nor the record: the handler only runs \<open>DELETE FROM inspections\<close>, the foreign
  key of \<open>email_queue\<close> makes that statement fail, and the route answers 500. Both jobs
  are in the next batch of pending jobs.
\<close>

theorem delete_with_jobs_removes_nothing:
  "delete_inspection ''inspection_1'' \<lparr>inspections = [row_a], email_queue = [job_a, job_b]\<rparr>
     = (Inl (APIError ''Failed to delete inspection'' 500),
        \<lparr>inspections = [row_a], email_queue = [job_a, job_b]\<rparr>)
   \<and> getPendingEmails (Inr (email_queue (snd (delete_inspection ''inspection_1''
          \<lparr>inspections = [row_a], email_queue = [job_a, job_b]\<rparr>)))) 10 = [job_b, job_a]"
  by (simp add: delete_inspection_def sql_delete_inspection_def references_def row_a_def
                job_a_def job_b_def getPendingEmails_def sql_limit_def)

text \<open>
  C6, amended. \<open>delete(id)\<close> never removes or cancels a delivery job: the queue after
  the call is the queue before it. If some job references \<open>id\<close>, whatever its status,
  the call fails and changes nothing, so the record stays and its pending jobs are still
  returned by later batches. If no job references \<open>id\<close> and the record exists, the call
  removes the record. In a database that satisfies the foreign key, no job is left
  referencing a missing record.
\<close>

theorem delete_inspection_never_cancels_jobs:
  assumes "foreign_key_ok t"
  shows "email_queue (snd (delete_inspection ident t)) = email_queue t
         \<and> foreign_key_ok (snd (delete_inspection ident t))
         \<and> (list_ex (references ident) (email_queue t)
              \<longrightarrow> isl (fst (delete_inspection ident t)) \<and> snd (delete_inspection ident t) = t)
         \<and> (\<not> list_ex (references ident) (email_queue t)
              \<and> list_ex (\<lambda>r. row_inspectionId r = ident) (inspections t)
              \<longrightarrow> \<not> isl (fst (delete_inspection ident t))
                  \<and> inspections (snd (delete_inspection ident t))
                      = filter (\<lambda>r. row_inspectionId r \<noteq> ident) (inspections t))"
proof (intro conjI impI)
  show "email_queue (snd (delete_inspection ident t)) = email_queue t"
    by (rule delete_inspection_queue)
  show "foreign_key_ok (snd (delete_inspection ident t))"
    using assms by (rule delete_inspection_foreign_key)
next
  assume "list_ex (references ident) (email_queue t)"
  then show "isl (fst (delete_inspection ident t))" and "snd (delete_inspection ident t) = t"
    using delete_inspection_blocked by blast+
next
  assume a: "\<not> list_ex (references ident) (email_queue t)
             \<and> list_ex (\<lambda>r. row_inspectionId r = ident) (inspections t)"
  then show "\<not> isl (fst (delete_inspection ident t))"
    and "inspections (snd (delete_inspection ident t))
           = filter (\<lambda>r. row_inspectionId r \<noteq> ident) (inspections t)"
    using delete_inspection_free[of ident t] by simp_all
qed

theorem delete_inspection_never_cancels_jobs_witness:
  "foreign_key_ok \<lparr>inspections = [row_a, row_b], email_queue = [job_a, job_sent]\<rparr>
   \<and> list_ex (references ''inspection_1'') [job_a, job_sent]
   \<and> snd (delete_inspection ''inspection_1'' \<lparr>inspections = [row_a, row_b], email_queue = [job_a, job_sent]\<rparr>)
       = \<lparr>inspections = [row_a, row_b], email_queue = [job_a, job_sent]\<rparr>
   \<and> \<not> list_ex (references ''inspection_2'') [job_a, job_sent]
   \<and> list_ex (\<lambda>r. row_inspectionId r = ''inspection_2'') [row_a, row_b]
   \<and> inspections (snd (delete_inspection ''inspection_2''
         \<lparr>inspections = [row_a, row_b], email_queue = [job_a, job_sent]\<rparr>)) = [row_a]
   \<and> email_queue (snd (delete_inspection ''inspection_2''
         \<lparr>inspections = [row_a, row_b], email_queue = [job_a, job_sent]\<rparr>)) = [job_a, job_sent]
   \<and> foreign_key_ok (snd (delete_inspection ''inspection_2''
         \<lparr>inspections = [row_a, row_b], email_queue = [job_a, job_sent]\<rparr>))"
proof -
  let ?t = "\<lparr>inspections = [row_a, row_b], email_queue = [job_a, job_sent]\<rparr>"
  have h: "foreign_key_ok ?t"
    by (simp add: foreign_key_ok_def row_a_def row_b_def job_a_def job_sent_def)
  have r1: "list_ex (references ''inspection_1'') (email_queue ?t)"
    by (simp add: references_def job_a_def)
  have r2: "\<not> list_ex (references ''inspection_2'') (email_queue ?t)
            \<and> list_ex (\<lambda>r. row_inspectionId r = ''inspection_2'') (inspections ?t)"
    by (simp add: references_def job_a_def job_sent_def row_a_def row_b_def)
  have f: "filter (\<lambda>r. row_inspectionId r \<noteq> ''inspection_2'') (inspections ?t) = [row_a]"
    by (simp add: row_a_def row_b_def)
  from delete_inspection_never_cancels_jobs[OF h, of "''inspection_1''"] r1
  have a: "snd (delete_inspection ''inspection_1'' ?t) = ?t" by blast
  from delete_inspection_never_cancels_jobs[OF h, of "''inspection_2''"] r2 f
  have b: "inspections (snd (delete_inspection ''inspection_2'' ?t)) = [row_a]"
    "email_queue (snd (delete_inspection ''inspection_2'' ?t)) = [job_a, job_sent]"
    "foreign_key_ok (snd (delete_inspection ''inspection_2'' ?t))"
    by simp_all
  from h r1 r2 a b show ?thesis by simp
qed

section \<open>The completion percentage is a rounded percentage\<close>

text \<open>\<open>normalize\<close> returns a significand in \<open>[2^52, 2^53)\<close> and the exponent that
  goes with it.\<close>

lemma normalize_spec:
  "0 < x \<Longrightarrow> normalize x e0 = (m, e) \<Longrightarrow>
     2 ^ 52 \<le> m \<and> m < 2 ^ 53 \<and> m * 2 powi e = x * 2 powi e0"
proof (induction x e0 rule: normalize.induct)
  case (1 x e0)
  show ?case
  proof (cases "x < 2 ^ 52")
    case True
    have "normalize x e0 = normalize (2 * x) (e0 - 1)"
      using "1.prems"(1) True by (subst normalize.simps) simp
    with "1.prems" have n: "normalize (2 * x) (e0 - 1) = (m, e)" by simp
    have ih: "2 ^ 52 \<le> m \<and> m < 2 ^ 53 \<and> m * 2 powi e = (2 * x) * 2 powi (e0 - 1)"
      using "1.IH"(1)[OF _ True _ n] "1.prems"(1) by simp
    have pw: "(2::real) powi (e0 - 1) = 2 powi e0 / 2"
      by (simp add: power_int_diff)
    have "(2 * x) * (2 powi e0 / 2) = x * 2 powi e0" by simp
    with ih pw show ?thesis by metis
  next
    case False
    show ?thesis
    proof (cases "2 ^ 53 \<le> x")
      case True
      have "normalize x e0 = normalize (x / 2) (e0 + 1)"
        using "1.prems"(1) False True by (subst normalize.simps) simp
      with "1.prems" have n: "normalize (x / 2) (e0 + 1) = (m, e)" by simp
      have ih: "2 ^ 52 \<le> m \<and> m < 2 ^ 53 \<and> m * 2 powi e = (x / 2) * 2 powi (e0 + 1)"
        using "1.IH"(2)[OF _ False True _ n] "1.prems"(1) by simp
      have pw: "(2::real) powi (e0 + 1) = 2 powi e0 * 2"
        by (simp add: power_int_add)
      have "(x / 2) * (2 powi e0 * 2) = x * 2 powi e0" by simp
      with ih pw show ?thesis by metis
    next
      case nb: False
      have "normalize x e0 = (x, e0)"
        using "1.prems"(1) False nb by (subst normalize.simps) simp
      with "1.prems" False nb show ?thesis by simp
    qed
  qed
qed

text \<open>Rounding to the nearest integer is off by at most one half.\<close>

lemma round_half_even_error: "\<bar>of_int (round_half_even q) - q\<bar> \<le> 1 / 2"
proof -
  have "0 \<le> q - of_int \<lfloor>q\<rfloor>" "q - of_int \<lfloor>q\<rfloor> < 1" by linarith+
  then show ?thesis
    by (auto simp: round_half_even_def Let_def abs_le_iff)
qed

text \<open>Rounding to a double has relative error at most \<open>2^-53\<close>.\<close>

lemma fl_error:
  assumes "0 < x"
  shows "\<bar>fl x - x\<bar> \<le> x / 2 ^ 53"
proof -
  obtain m e where n: "normalize x 0 = (m, e)" by (cases "normalize x 0")
  from normalize_spec[OF assms n] have m: "2 ^ 52 \<le> m" and x: "m * 2 powi e = x" by simp_all
  have p: "(0::real) < 2 powi e" by simp
  have flx: "fl x = of_int (round_half_even m) * 2 powi e"
    using assms n by (simp add: fl_def)
  have "fl x - x = of_int (round_half_even m) * 2 powi e - m * 2 powi e"
    using flx x by simp
  then have "fl x - x = (of_int (round_half_even m) - m) * 2 powi e"
    by (simp add: algebra_simps)
  then have "\<bar>fl x - x\<bar> = \<bar>of_int (round_half_even m) - m\<bar> * 2 powi e"
    using p by (simp add: abs_mult)
  also have "\<dots> \<le> (1 / 2) * 2 powi e"
    using round_half_even_error[of m] p by (intro mult_right_mono) simp_all
  also have "\<dots> \<le> (m / 2 ^ 53) * 2 powi e"
    using m p by (intro mult_right_mono) (simp_all add: field_simps)
  also have "\<dots> = x / 2 ^ 53" using x by (simp add: field_simps)
  finally show ?thesis .
qed

lemma fl_bounds:
  assumes "0 \<le> x"
  shows "x - x / 2 ^ 53 \<le> fl x \<and> fl x \<le> x + x / 2 ^ 53"
proof (cases "x = 0")
  case True
  then show ?thesis by (simp add: fl_def)
next
  case False
  with assms have "0 < x" by simp
  define d where "d = x / 2 ^ 53"
  from fl_error[OF \<open>0 < x\<close>] have "\<bar>fl x - x\<bar> \<le> d" by (simp add: d_def)
  then have "x - d \<le> fl x \<and> fl x \<le> x + d" by linarith
  then show ?thesis by (simp add: d_def)
qed


text \<open>
  The computation on the two lengths: the two roundings move the exact percentage by
  less than \<open>2^-45\<close>, \<open>Math.round\<close> by at most one half, and twice the length times
  the difference is an integer.
\<close>

lemma percent_core:
  fixes k n :: nat
  assumes n0: "0 < n" and kn: "k \<le> n" and nb: "n < 2 ^ 32"
  defines "r \<equiv> Math_round (js_times (js_divide (of_nat k) (of_nat n)) 100)"
  shows "0 \<le> r \<and> r \<le> 100 \<and> \<bar>of_int r - 100 * real k / real n\<bar> \<le> 1 / 2"
proof -
  define x where "x = real k / real n"
  define y where "y = fl x"
  define w where "w = y * 100"
  define z where "z = fl w"
  define a where "a = x / 2 ^ 53"
  define b where "b = w / 2 ^ 53"
  have r: "r = \<lfloor>z + 1 / 2\<rfloor>"
    by (simp add: r_def Math_round_def js_times_def js_divide_def z_def w_def y_def x_def)
  have x0: "0 \<le> x" and x1: "x \<le> 1"
    using n0 kn by (simp_all add: x_def)
  have a0: "0 \<le> a" and a1: "a \<le> 1 / 2 ^ 53"
    using x0 x1 by (simp_all add: a_def divide_right_mono)
  have y: "x - a \<le> y" "y \<le> x + a"
    using fl_bounds[OF x0] by (simp_all add: y_def a_def)
  have ax: "a \<le> x" using x0 by (simp add: a_def field_simps)
  have w0: "0 \<le> w" using y ax by (simp add: w_def)
  have w101: "w \<le> 101" using y x1 a1 by (simp add: w_def)
  have b0: "0 \<le> b" and b1: "b \<le> 101 / 2 ^ 53"
    using w0 w101 by (simp_all add: b_def divide_right_mono)
  have bw: "b \<le> w" using w0 by (simp add: b_def field_simps)
  have z: "w - b \<le> z" "z \<le> w + b"
    using fl_bounds[OF w0] by (simp_all add: z_def b_def)
  have z0: "0 \<le> z" using z bw by simp
  have zlo: "100 * x - 201 / 2 ^ 53 \<le> z" and zhi: "z \<le> 100 * x + 201 / 2 ^ 53"
    using z y a1 b1 by (simp_all add: w_def)
  have r0: "0 \<le> r" unfolding r using z0 by simp
  have "z + 1 / 2 < 101" using zhi x1 by simp
  then have r100: "r \<le> 100" unfolding r by (simp add: floor_less_iff)
  have rlo: "z - 1 / 2 < of_int r" and rhi: "of_int r \<le> z + 1 / 2"
    unfolding r by linarith+
  define rn where "rn = real n"
  have rn0: "0 < rn" and rnb: "rn \<le> 2 ^ 32" using n0 nb by (simp_all add: rn_def)
  have xk: "rn * x = real k" using n0 by (simp add: x_def rn_def)
  have d: "rn * (201 / 2 ^ 53) < 1 / 2"
  proof -
    have "rn * (201 / 2 ^ 53) \<le> 2 ^ 32 * (201 / 2 ^ 53)"
      using rnb by (intro mult_right_mono) simp_all
    also have "\<dots> < (1::real) / 2" by simp
    finally show ?thesis .
  qed
  have "rn * of_int r \<le> rn * (100 * x + 201 / 2 ^ 53 + 1 / 2)"
    using rhi zhi rn0 by (intro mult_left_mono) simp_all
  also have "\<dots> = 100 * real k + rn * (201 / 2 ^ 53) + rn / 2"
    using xk by (simp add: algebra_simps)
  finally have up: "2 * (rn * of_int r) < 200 * real k + rn + 1"
    using d by simp
  have "rn * (100 * x - 201 / 2 ^ 53 - 1 / 2) \<le> rn * of_int r"
    using rlo zlo rn0 by (intro mult_left_mono) simp_all
  moreover have "rn * (100 * x - 201 / 2 ^ 53 - 1 / 2) = 100 * real k - rn * (201 / 2 ^ 53) - rn / 2"
    using xk by (simp add: algebra_simps)
  ultimately have lo: "200 * real k - rn - 1 < 2 * (rn * of_int r)"
    using d by simp
  have "real_of_int (2 * (int n * r)) < real_of_int (200 * int k + int n + 1)"
    using up by (simp add: rn_def)
  then have iup: "2 * (int n * r) \<le> 200 * int k + int n"
    by (simp only: of_int_less_iff)
  have "real_of_int (200 * int k - int n - 1) < real_of_int (2 * (int n * r))"
    using lo by (simp add: rn_def)
  then have ilo: "200 * int k - int n \<le> 2 * (int n * r)"
    by (simp only: of_int_less_iff)
  have "of_int r - 100 * real k / real n = real_of_int (2 * (int n * r) - 200 * int k) / (2 * real n)"
    using n0 by (simp add: field_simps)
  then have "\<bar>of_int r - 100 * real k / real n\<bar> = \<bar>real_of_int (2 * (int n * r) - 200 * int k)\<bar> / (2 * real n)"
    by (simp only: abs_divide)
  also have "\<dots> \<le> real n / (2 * real n)"
  proof -
    have "\<bar>2 * (int n * r) - 200 * int k\<bar> \<le> int n" using iup ilo by simp
    then have "\<bar>real_of_int (2 * (int n * r) - 200 * int k)\<bar> \<le> real n"
      by (metis of_int_abs of_int_le_iff of_int_of_nat_eq)
    then show ?thesis using n0 by (intro divide_right_mono) simp_all
  qed
  also have "\<dots> = 1 / 2" using n0 by simp
  finally show ?thesis using r0 r100 by simp
qed

text \<open>
  C9, as stated, fails: the derived value is a percentage, not a ratio. For a checklist
  of 18 items with 9 checked both backends compute 50, which is not the rational
  \<open>9/18\<close> and not in \<open>[0,1]\<close>.
\<close>

theorem completion_value_is_not_the_ratio:
  "length checklist_18_9 = 18 \<and> length (filter checked checklist_18_9) = 9
   \<and> post_completionPercentage checklist_18_9 = Some 50
   \<and> completionPercentage ((doc_a None)\<lparr>inspectionPoints := checklist_18_9\<rparr>) = 50
   \<and> real_of_int (rounded_percentage checklist_18_9) \<noteq> 9 / 18
   \<and> \<not> real_of_int (rounded_percentage checklist_18_9) \<le> 1"
  by (simp add: checklist_18_9_def point_def post_completionPercentage_def completionPercentage_def
                rounded_percentage_def Math_round_def js_times_def js_divide_def fl_def
                round_half_even_def normalize.simps)

text \<open>The value is not always the exact percentage rounded half up either: 23 of 40 is
  57.5 percent, the doubles give \<open>57.49999999999999\<close> and the result is 57.\<close>

lemma rounded_percentage_tie_example: "rounded_percentage checklist_40_23 = 57"
  by (simp add: checklist_40_23_def point_def rounded_percentage_def Math_round_def
                js_times_def js_divide_def fl_def round_half_even_def normalize.simps)

text \<open>
  C9, amended. For every record created or updated with a non-empty checklist of \<open>n\<close>
  items (\<open>n < 2^32\<close>, the bound on a JavaScript array) of which \<open>k\<close> are checked,
  the derived completion value, in the row the embedded backend stores and in the
  virtual of the cloud backend's model, is the integer
  \<open>Math.round(k / n * 100)\<close>: it lies in \<open>[0, 100]\<close> and differs from the exact
  percentage \<open>100 k / n\<close> by at most one half. For 18 items with 9 checked it is 50.
\<close>

theorem completion_value_is_a_rounded_percentage:
  assumes "points \<noteq> []" and "length points < 2 ^ 32"
  shows "post_completionPercentage points = Some (rounded_percentage points)
         \<and> put_completionPercentage (Some points) stored = Some (rounded_percentage points)
         \<and> completionPercentage (d\<lparr>inspectionPoints := points\<rparr>) = rounded_percentage points
         \<and> 0 \<le> rounded_percentage points \<and> rounded_percentage points \<le> 100
         \<and> \<bar>real_of_int (rounded_percentage points)
               - 100 * real (length (filter checked points)) / real (length points)\<bar> \<le> 1 / 2"
proof -
  have n0: "0 < length points" using assms(1) by simp
  have kn: "length (filter checked points) \<le> length points" by (rule length_filter_le)
  from percent_core[OF n0 kn assms(2)]
  have "0 \<le> rounded_percentage points \<and> rounded_percentage points \<le> 100
        \<and> \<bar>real_of_int (rounded_percentage points)
              - 100 * real (length (filter checked points)) / real (length points)\<bar> \<le> 1 / 2"
    by (simp add: rounded_percentage_def)
  with assms(1) show ?thesis
    by (simp add: post_completionPercentage_def put_completionPercentage_def completionPercentage_def)
qed

theorem completion_value_is_a_rounded_percentage_witness:
  "checklist_18_9 \<noteq> [] \<and> length checklist_18_9 < 2 ^ 32
   \<and> post_completionPercentage checklist_18_9 = Some 50
   \<and> 0 \<le> rounded_percentage checklist_18_9 \<and> rounded_percentage checklist_18_9 \<le> 100
   \<and> \<bar>real_of_int (rounded_percentage checklist_18_9)
         - 100 * real (length (filter checked checklist_18_9)) / real (length checklist_18_9)\<bar> \<le> 1 / 2"
proof -
  have h1: "checklist_18_9 \<noteq> []" by (simp add: checklist_18_9_def)
  have h2: "length checklist_18_9 < 2 ^ 32" by (simp add: checklist_18_9_def)
  have v: "rounded_percentage checklist_18_9 = 50"
    by (simp add: checklist_18_9_def point_def rounded_percentage_def Math_round_def
                  js_times_def js_divide_def fl_def round_half_even_def normalize.simps)
  from completion_value_is_a_rounded_percentage[OF h1 h2] h1 h2 v show ?thesis
    by simp
qed

end
